theory Spec2Isabelle
  imports Complex_Main
begin

section \<open>Configuration values\<close>

text \<open>
  The validators of \<^verbatim>\<open>src/packages/hop-node/src/config/validation.ts\<close> receive a parsed
  configuration and inspect it with JavaScript's dynamic operations: truthiness tests,
  \<^verbatim>\<open>Object.keys\<close>, \<^verbatim>\<open>for ... in\<close>, property reads, \<^verbatim>\<open>instanceof Object\<close> and
  \<^verbatim>\<open>typeof\<close>. The TypeScript types are erased at run time, so a configuration is
  modelled as the JavaScript value it is: the values of JSON, and \<open>JUndef\<close> for
  \<^verbatim>\<open>undefined\<close>, which is what reading an absent property gives.

  An object is the list of its own properties in enumeration order; a well-formed
  object has no key twice. A number is a rational: every finite double is one, and the
  validators only test a number against zero.

  \<open>get\<close> reads own properties. That is the whole read wherever the validators read a
  fixed section or field name, a key they have just enumerated, or a key they have
  validated against a list before. The one read with keys that nothing has validated,
  line 349 of the value pass, goes through the prototype chain as well and is modelled
  with \<open>read_prop\<close> below.
\<close>

datatype json =
    JUndef
  | JNull
  | JBool bool
  | JNum rat
  | JStr string
  | JArr "json list"
  | JObj "(string \<times> json) list"

text \<open>The conditions \<^verbatim>\<open>if (v)\<close> and \<^verbatim>\<open>!v\<close>.\<close>

fun truthy :: "json \<Rightarrow> bool" where
  "truthy JUndef = False"
| "truthy JNull = False"
| "truthy (JBool b) = b"
| "truthy (JNum n) = (n \<noteq> 0)"
| "truthy (JStr s) = (s \<noteq> [])"
| "truthy (JArr xs) = True"
| "truthy (JObj kvs) = True"

fun nullish :: "json \<Rightarrow> bool" where
  "nullish JUndef = True"
| "nullish JNull = True"
| "nullish v = False"

fun instanceof_Object :: "json \<Rightarrow> bool" where
  "instanceof_Object (JArr xs) = True"
| "instanceof_Object (JObj kvs) = True"
| "instanceof_Object v = False"

datatype jstype = T_undefined | T_object | T_boolean | T_number | T_string

fun typeof :: "json \<Rightarrow> jstype" where
  "typeof JUndef = T_undefined"
| "typeof JNull = T_object"
| "typeof (JBool b) = T_boolean"
| "typeof (JNum n) = T_number"
| "typeof (JStr s) = T_string"
| "typeof (JArr xs) = T_object"
| "typeof (JObj kvs) = T_object"

text \<open>The decimal name of an array index or of a character position.\<close>

fun index_key :: "nat \<Rightarrow> string" where
  "index_key n =
     (if n < 10 then [''0123456789'' ! n]
      else index_key (n div 10) @ [''0123456789'' ! (n mod 10)])"

declare index_key.simps [simp del]

text \<open>
  The own enumerable property names of a value: the keys of an object, the indices of an
  array or of a string, nothing for a number or a boolean.
\<close>

fun own_keys :: "json \<Rightarrow> string list" where
  "own_keys (JObj kvs) = map fst kvs"
| "own_keys (JArr xs) = map index_key [0..<length xs]"
| "own_keys (JStr s) = map index_key [0..<length s]"
| "own_keys v = []"

fun lookup :: "(string \<times> json) list \<Rightarrow> string \<Rightarrow> json" where
  "lookup [] k = JUndef"
| "lookup ((k', v) # kvs) k = (if k' = k then v else lookup kvs k)"

text \<open>
  \<open>get v k\<close> is the value of \<^verbatim>\<open>v[k]\<close> for a \<open>v\<close> other than \<^verbatim>\<open>undefined\<close> and
  \<^verbatim>\<open>null\<close>, on which the read raises a TypeError (\<open>get_prop\<close>); \<open>get_opt\<close> is the
  optional read \<^verbatim>\<open>v?.[k]\<close>.
\<close>

fun get :: "json \<Rightarrow> string \<Rightarrow> json" where
  "get (JObj kvs) k = lookup kvs k"
| "get (JArr xs) k =
     (if k = ''length'' then JNum (of_nat (length xs))
      else case find (\<lambda>i. index_key i = k) [0..<length xs] of
             Some i \<Rightarrow> xs ! i
           | None \<Rightarrow> JUndef)"
| "get (JStr s) k =
     (if k = ''length'' then JNum (of_nat (length s))
      else case find (\<lambda>i. index_key i = k) [0..<length s] of
             Some i \<Rightarrow> JStr [s ! i]
           | None \<Rightarrow> JUndef)"
| "get v k = JUndef"

definition get_opt :: "json \<Rightarrow> string \<Rightarrow> json" where
  "get_opt v k = (if nullish v then JUndef else get v k)"

section \<open>Errors\<close>

text \<open>
  Each \<^verbatim>\<open>throw new Error(...)\<close> of the source is a constructor that carries the values
  its message interpolates; \<open>TypeError\<close> is the error the runtime raises when
  \<^verbatim>\<open>Object.keys\<close> or a property read is applied to \<^verbatim>\<open>undefined\<close> or \<^verbatim>\<open>null\<close>.
\<close>

datatype error =
    TypeError
  | ConfigRequired
    \<comment> \<open>config is required\<close>
  | ConfigMustBeObject
    \<comment> \<open>config must be a JSON object\<close>
  | UnrecognizedKey string "string list"
    \<comment> \<open>unrecognized key "key". Valid keys are: validKeys\<close>
  | UnrecognizedValue json "string list"
    \<comment> \<open>the same message, for a key that is not a string\<close>
  | ChainRequired string
    \<comment> \<open>config for chain "chain" is required\<close>
  | KeystoreAndSigner
    \<comment> \<open>You cannot have both a keystore and a signer\<close>
  | MissingFeeForChain string string
    \<comment> \<open>missing fee for chain "chain" for token "token"\<close>
  | MissingFeeForToken string
    \<comment> \<open>missing fee for token "enabledToken"\<close>
  | MissingThresholdToken string
    \<comment> \<open>missing minThresholdAmount config for token "token"\<close>
  | MissingThresholdSource string string
    \<comment> \<open>... for token "token" source chain "sourceChain"\<close>
  | MissingThresholdDestination string string string
    \<comment> \<open>... for token "token" source chain "sourceChain" destination chain "destinationChain"\<close>
  | BondersNotObject
    \<comment> \<open>bonders config should be an object\<close>
  | BondersTokenNotObject string
    \<comment> \<open>bonders config for "token" should be an object\<close>
  | BondersSourceNotObject string string
    \<comment> \<open>bonders config for "token.sourceChain" should be an object\<close>
  | BlocklistNotObject
    \<comment> \<open>blocklist config must be an object\<close>
  | RpcConfigRequired json
    \<comment> \<open>RPC config for chain "chain" is required (the message interpolates the value)\<close>
  | RpcUrlRequired string
    \<comment> \<open>RPC url for chain "chainSlug" is required\<close>
  | RpcUrlNotString string
    \<comment> \<open>RPC url for chain "chainSlug" must be a string\<close>
  | RpcUrlInvalid string
    \<comment> \<open>rpc url "rpcUrl" is invalid\<close>
  | WaitConfirmationsNotNumber string
    \<comment> \<open>waitConfirmations for chain "chainSlug" must be a number\<close>
  | WaitConfirmationsNotPositive string
    \<comment> \<open>waitConfirmations for chain "chainSlug" must be greater than 0\<close>
  | MaxGasPriceNotNumber string
    \<comment> \<open>maxGasPrice for chain "chainSlug" must be a number\<close>
  | MaxGasPriceNotPositive string
    \<comment> \<open>maxGasPrice for chain "chainSlug" must be greater than 0\<close>
  | ThresholdNotNumber string string string
    \<comment> \<open>minThresholdAmount config for token ... must be a number\<close>
  | BonderAddressNotString
    \<comment> \<open>config bonder address should be a string\<close>
  | BonderAddressInvalid string
    \<comment> \<open>config bonder address "bonderAddress" is invalid\<close>
  | AutoDepositNotBoolean
    \<comment> \<open>autoDeposit should be boolean\<close>
  | DepositThresholdAmountNotNumber
    \<comment> \<open>depositThresholdAmount should be a number\<close>
  | DepositAmountNotNumber
    \<comment> \<open>depositAmount should be a number\<close>
  | AutoWithdrawNotBoolean
    \<comment> \<open>autoWithdraw should be boolean\<close>
  | StrategyInvalid
    \<comment> \<open>strategy is invalid. Valid options are: yearn, aave\<close>
  | BlocklistPathNotString
    \<comment> \<open>blocklist.path must be a string\<close>

text \<open>Sequencing of statements that may throw: the first error ends the run.\<close>

definition ebind :: "error + 'a \<Rightarrow> ('a \<Rightarrow> error + 'b) \<Rightarrow> error + 'b" where
  "ebind m f = (case m of Inl e \<Rightarrow> Inl e | Inr x \<Rightarrow> f x)"

text \<open>A loop whose body may throw; \<^verbatim>\<open>continue\<close> is a body that returns at once.\<close>

fun for_each :: "'a list \<Rightarrow> ('a \<Rightarrow> error + unit) \<Rightarrow> error + unit" where
  "for_each [] body = Inr ()"
| "for_each (x # xs) body =
     (case body x of Inl e \<Rightarrow> Inl e | Inr u \<Rightarrow> for_each xs body)"

definition object_keys :: "json \<Rightarrow> error + string list" where
  "object_keys v = (if nullish v then Inl TypeError else Inr (own_keys v))"

definition get_prop :: "json \<Rightarrow> string \<Rightarrow> error + json" where
  "get_prop v k = (if nullish v then Inl TypeError else Inr (get v k))"

text \<open>\<^verbatim>\<open>for (const k in v)\<close> runs over no key when \<open>v\<close> is \<^verbatim>\<open>undefined\<close> or \<^verbatim>\<open>null\<close>.\<close>

definition forin_keys :: "json \<Rightarrow> string list" where
  "forin_keys v = own_keys v"

section \<open>validateKeys\<close>

text \<open>
  Lines 16 to 22. The default \<^verbatim>\<open>[]\<close> of \<^verbatim>\<open>validKeys\<close> stands in for an argument that is
  \<^verbatim>\<open>undefined\<close>; every call of this file passes a list.
\<close>

fun validateKeys :: "string list \<Rightarrow> string list \<Rightarrow> error + unit" where
  "validateKeys validKeys [] = Inr ()"
| "validateKeys validKeys (key # keys) =
     (if key \<notin> set validKeys then Inl (UnrecognizedKey key validKeys)
      else validateKeys validKeys keys)"

section \<open>The enumerations\<close>

text \<open>
  \<^verbatim>\<open>Chain\<close> (of \<^verbatim>\<open>src/constants\<close>) and \<^verbatim>\<open>Watchers\<close> (of \<^verbatim>\<open>src/config\<close>) are string
  enumerations that the validator imports. It uses the string value of each member, so
  the members are fields of a record that the validators take as a parameter: what is
  proved below holds for any values of them.
\<close>

record constants =
  Chain_Ethereum :: string
  Chain_Optimism :: string
  Chain_Arbitrum :: string
  Chain_Gnosis :: string
  Chain_Polygon :: string
  Chain_Nova :: string
  Chain_ZkSync :: string
  Chain_Linea :: string
  Chain_ScrollZk :: string
  Chain_Base :: string
  Watchers_BondTransferRoot :: string
  Watchers_BondWithdrawal :: string
  Watchers_Challenge :: string
  Watchers_CommitTransfers :: string
  Watchers_SettleBondedWithdrawals :: string
  Watchers_ConfirmRoots :: string
  Watchers_L1ToL2Relay :: string

text \<open>
  Modelled from the spec: the values of the members of \<^verbatim>\<open>Chain\<close> and \<^verbatim>\<open>Watchers\<close>, whose
  declarations are in other files of the repository. The spec names the members and not
  their values; each member is given its own name in lower case (camel case for the
  watchers). Only the concrete configurations below use these values.
\<close>

definition hop_constants :: constants where
  "hop_constants =
     \<lparr> Chain_Ethereum = ''ethereum'',
       Chain_Optimism = ''optimism'',
       Chain_Arbitrum = ''arbitrum'',
       Chain_Gnosis = ''gnosis'',
       Chain_Polygon = ''polygon'',
       Chain_Nova = ''nova'',
       Chain_ZkSync = ''zksync'',
       Chain_Linea = ''linea'',
       Chain_ScrollZk = ''scrollzk'',
       Chain_Base = ''base'',
       Watchers_BondTransferRoot = ''bondTransferRoot'',
       Watchers_BondWithdrawal = ''bondWithdrawal'',
       Watchers_Challenge = ''challenge'',
       Watchers_CommitTransfers = ''commitTransfers'',
       Watchers_SettleBondedWithdrawals = ''settleBondedWithdrawals'',
       Watchers_ConfirmRoots = ''confirmRoots'',
       Watchers_L1ToL2Relay = ''L1ToL2Relay'' \<rparr>"

section \<open>validateConfigFileStructure\<close>

definition validSectionKeys :: "string list" where
  "validSectionKeys =
     [''network'', ''chains'', ''sync'', ''tokens'', ''commitTransfers'',
      ''bondWithdrawals'', ''settleBondedWithdrawals'', ''watchers'', ''db'',
      ''logging'', ''keystore'', ''addresses'', ''metrics'', ''fees'', ''routes'',
      ''bonders'', ''signer'', ''vault'', ''blocklist'']"

definition validWatcherKeys :: "constants \<Rightarrow> string list" where
  "validWatcherKeys K =
     [Watchers_BondTransferRoot K, Watchers_BondWithdrawal K, Watchers_Challenge K,
      Watchers_CommitTransfers K, Watchers_SettleBondedWithdrawals K,
      Watchers_ConfirmRoots K, Watchers_L1ToL2Relay K]"

definition validChainKeys :: "constants \<Rightarrow> string list" where
  "validChainKeys K =
     [Chain_Ethereum K, Chain_Optimism K, Chain_Arbitrum K, Chain_Gnosis K,
      Chain_Polygon K, Chain_Nova K, Chain_ZkSync K, Chain_Linea K, Chain_ScrollZk K,
      Chain_Base K]"

definition validTokenKeys :: "string list" where
  "validTokenKeys =
     [''USDC'', ''USDT'', ''DAI'', ''ETH'', ''MATIC'', ''WBTC'', ''HOP'', ''SNX'',
      ''sUSD'', ''rETH'', ''UNI'']"

definition validChainConfigKeys :: "string list" where
  "validChainConfigKeys = [''rpcUrl'', ''maxGasPrice'']"

definition validLoggingLevels :: "string list" where
  "validLoggingLevels = [''debug'', ''info'', ''warn'', ''error'']"

definition validKeystoreProps :: "string list" where
  "validKeystoreProps =
     [''location'', ''pass'', ''passwordFile'', ''parameterStore'', ''awsRegion'']"

definition validSignerProps :: "string list" where
  "validSignerProps = [''type'', ''keyId'', ''awsRegion'', ''lambdaFunctionName'']"

definition validConfigKeys :: "string list" where
  "validConfigKeys =
     [''depositThresholdAmount'', ''depositAmount'', ''strategy'', ''autoWithdraw'',
      ''autoDeposit'']"

text \<open>
  The function is one body of checks run top to bottom; the model cuts it into its
  blocks, each named after the section it checks, and \<open>validateConfigFileStructure\<close>
  runs them in the order of the source. Past the two guards of lines 25 to 31
  \<^verbatim>\<open>config\<close> is an object, so \<^verbatim>\<open>config.x\<close> is \<open>get config x\<close>. Every other read
  \<^verbatim>\<open>v[k]\<close> of this function is made on a \<open>v\<close> that was tested just before (truthy, or an
  \<^verbatim>\<open>instanceof Object\<close>), or whose keys are being enumerated, and is \<open>get v k\<close> as well;
  \<^verbatim>\<open>Object.keys\<close> can raise and is \<open>object_keys\<close> throughout.
\<close>

text \<open>Lines 96 to 108; the result is \<^verbatim>\<open>enabledChains\<close>.\<close>

definition check_chains :: "constants \<Rightarrow> json \<Rightarrow> error + string list" where
  "check_chains K config =
     ebind (object_keys (get config ''chains'')) (\<lambda>enabledChains.
       if Chain_Ethereum K \<notin> set enabledChains
       then Inl (ChainRequired (Chain_Ethereum K))
       else
         ebind (validateKeys (validChainKeys K) enabledChains) (\<lambda>_.
         ebind (for_each (forin_keys (get config ''chains'')) (\<lambda>key.
                  ebind (object_keys (get (get config ''chains'') key))
                    (\<lambda>chainKeys. validateKeys validChainConfigKeys chainKeys))) (\<lambda>_.
         Inr enabledChains)))"

text \<open>Lines 110 and 111; the result is \<^verbatim>\<open>enabledTokens\<close>.\<close>

definition check_tokens :: "json \<Rightarrow> error + string list" where
  "check_tokens config =
     ebind (object_keys (get config ''tokens'')) (\<lambda>tokenKeys.
       let enabledTokens =
             filter (\<lambda>token. truthy (get (get config ''tokens'') token)) tokenKeys
       in ebind (validateKeys validTokenKeys enabledTokens) (\<lambda>_. Inr enabledTokens))"

text \<open>Lines 113 and 114.\<close>

definition check_watchers :: "constants \<Rightarrow> json \<Rightarrow> error + unit" where
  "check_watchers K config =
     ebind (object_keys (get config ''watchers'')) (\<lambda>watcherKeys.
       validateKeys (validWatcherKeys K) watcherKeys)"

text \<open>
  The pattern of lines 120 to 172: a section that is there (truthy) has its keys
  checked against the list of the section.
\<close>

definition check_section_keys :: "string list \<Rightarrow> json \<Rightarrow> error + unit" where
  "check_section_keys validKeys section =
     (if truthy section then ebind (object_keys section) (validateKeys validKeys)
      else Inr ())"

text \<open>
  Lines 126 to 135. \<^verbatim>\<open>includes\<close> compares with strict equality, so a level that is not
  a string is in no list.
\<close>

definition check_logging :: "json \<Rightarrow> error + unit" where
  "check_logging config =
     (if truthy (get config ''logging'') then
        ebind (object_keys (get config ''logging'')) (\<lambda>loggingKeys.
        ebind (validateKeys [''level''] loggingKeys) (\<lambda>_.
          if truthy (get_opt (get_opt config ''logging'') ''level'') then
            (case get_opt (get_opt config ''logging'') ''level'' of
               JStr level \<Rightarrow> validateKeys validLoggingLevels [level]
             | level \<Rightarrow> Inl (UnrecognizedValue level validLoggingLevels))
          else Inr ()))
      else Inr ())"

text \<open>Lines 116 to 172.\<close>

definition check_sections :: "json \<Rightarrow> error + unit" where
  "check_sections config =
     (if truthy (get_opt config ''keystore'') \<and> truthy (get_opt config ''signer'')
      then Inl KeystoreAndSigner
      else
        ebind (check_section_keys [''location''] (get config ''db'')) (\<lambda>_.
        ebind (check_logging config) (\<lambda>_.
        ebind (check_section_keys validKeystoreProps (get config ''keystore'')) (\<lambda>_.
        ebind (check_section_keys validSignerProps (get config ''signer'')) (\<lambda>_.
        ebind (check_section_keys [''enabled'', ''port''] (get config ''metrics'')) (\<lambda>_.
        check_section_keys [''location''] (get config ''addresses'')))))))"

text \<open>Lines 174 to 181.\<close>

definition check_routes :: "string list \<Rightarrow> json \<Rightarrow> error + unit" where
  "check_routes enabledChains config =
     (if truthy (get config ''routes'') then
        ebind (object_keys (get config ''routes'')) (\<lambda>sourceChains.
        ebind (validateKeys enabledChains sourceChains) (\<lambda>_.
        for_each (forin_keys (get config ''routes'')) (\<lambda>sourceChain.
          ebind (object_keys (get (get config ''routes'') sourceChain))
            (\<lambda>destinationChains. validateKeys enabledChains destinationChains))))
      else Inr ())"

text \<open>
  Lines 186 to 191: the \<^verbatim>\<open>Set\<close> of the destination chains, as the list of its members
  in insertion order.
\<close>

definition set_add :: "string list \<Rightarrow> string \<Rightarrow> string list" where
  "set_add s x = (if x \<in> set s then s else s @ [x])"

fun collect_destinations ::
  "json \<Rightarrow> string list \<Rightarrow> string list \<Rightarrow> error + string list" where
  "collect_destinations routes [] acc = Inr acc"
| "collect_destinations routes (sourceChain # rest) acc =
     ebind (object_keys (get routes sourceChain)) (\<lambda>destinationChains.
       collect_destinations routes rest (fold (\<lambda>d a. set_add a d) destinationChains acc))"

text \<open>Lines 183 to 208.\<close>

definition check_fees :: "string list \<Rightarrow> string list \<Rightarrow> json \<Rightarrow> error + unit" where
  "check_fees enabledChains enabledTokens config =
     (if truthy (get config ''fees'') then
        ebind (object_keys (get config ''fees'')) (\<lambda>tokens.
        ebind (validateKeys enabledTokens tokens) (\<lambda>_.
        ebind (collect_destinations (get config ''routes'')
                 (forin_keys (get config ''routes'')) []) (\<lambda>destinationChains.
        ebind (for_each (forin_keys (get config ''fees'')) (\<lambda>token.
                 ebind (object_keys (get (get config ''fees'') token)) (\<lambda>chains.
                 ebind (validateKeys enabledChains chains) (\<lambda>_.
                 for_each destinationChains (\<lambda>chain.
                   if \<not> truthy (get_opt (get (get config ''fees'') token) chain)
                   then Inl (MissingFeeForChain chain token)
                   else Inr ()))))) (\<lambda>_.
        for_each enabledTokens (\<lambda>enabledToken.
          if \<not> truthy (get_opt (get_opt config ''fees'') enabledToken)
          then Inl (MissingFeeForToken enabledToken)
          else Inr ())))))
      else Inr ())"

text \<open>Lines 210 to 239.\<close>

definition check_commitTransfers ::
  "constants \<Rightarrow> string list \<Rightarrow> string list \<Rightarrow> json \<Rightarrow> error + unit" where
  "check_commitTransfers K enabledChains enabledTokens config =
     (if truthy (get config ''commitTransfers'') then
        ebind (object_keys (get config ''commitTransfers'')) (\<lambda>commitTransfersKeys.
        ebind (validateKeys [''minThresholdAmount''] commitTransfersKeys) (\<lambda>_.
        let minThresholdAmount = get (get config ''commitTransfers'') ''minThresholdAmount''
        in
        ebind (object_keys minThresholdAmount) (\<lambda>tokens.
          if tokens \<noteq> [] then
            ebind (validateKeys enabledTokens tokens) (\<lambda>_.
            for_each enabledTokens (\<lambda>token.
              if \<not> truthy (get minThresholdAmount token)
              then Inl (MissingThresholdToken token)
              else
                ebind (object_keys (get minThresholdAmount token)) (\<lambda>chains.
                ebind (validateKeys enabledChains chains) (\<lambda>_.
                for_each (forin_keys (get config ''routes'')) (\<lambda>sourceChain.
                  if sourceChain = Chain_Ethereum K then Inr ()
                  else if \<not> truthy (get (get minThresholdAmount token) sourceChain)
                  then Inl (MissingThresholdSource token sourceChain)
                  else
                    for_each (forin_keys (get (get config ''routes'') sourceChain))
                      (\<lambda>destinationChain.
                        if \<not> truthy (get (get (get minThresholdAmount token) sourceChain)
                                        destinationChain)
                        then Inl (MissingThresholdDestination token sourceChain
                                    destinationChain)
                        else Inr ()))))))
          else Inr ())))
      else Inr ())"

text \<open>Lines 241 to 262.\<close>

definition check_bonders :: "string list \<Rightarrow> string list \<Rightarrow> json \<Rightarrow> error + unit" where
  "check_bonders enabledChains enabledTokens config =
     (if truthy (get config ''bonders'') then
        let bonders = get config ''bonders'' in
        if \<not> instanceof_Object bonders then Inl BondersNotObject
        else
          ebind (object_keys bonders) (\<lambda>tokens.
          ebind (validateKeys enabledTokens tokens) (\<lambda>_.
          for_each enabledTokens (\<lambda>token.
            if \<not> instanceof_Object (get bonders token)
            then Inl (BondersTokenNotObject token)
            else
              ebind (object_keys (get bonders token)) (\<lambda>sourceChains.
              ebind (validateKeys enabledChains sourceChains) (\<lambda>_.
              for_each (forin_keys (get bonders token)) (\<lambda>sourceChain.
                if \<not> instanceof_Object (get (get bonders token) sourceChain)
                then Inl (BondersSourceNotObject token sourceChain)
                else
                  ebind (object_keys (get (get bonders token) sourceChain))
                    (\<lambda>destinationChains.
                      validateKeys enabledChains destinationChains)))))))
      else Inr ())"

text \<open>Lines 264 to 278.\<close>

definition check_vault :: "constants \<Rightarrow> json \<Rightarrow> error + unit" where
  "check_vault K config =
     (if truthy (get config ''vault'') then
        let vaultConfig = get config ''vault'' in
        ebind (object_keys vaultConfig) (\<lambda>vaultTokens.
        ebind (validateKeys validTokenKeys vaultTokens) (\<lambda>_.
        for_each (forin_keys vaultConfig) (\<lambda>tokenSymbol.
          ebind (object_keys (get vaultConfig tokenSymbol)) (\<lambda>vaultChains.
          ebind (validateKeys (validChainKeys K) vaultChains) (\<lambda>_.
          for_each (forin_keys (get vaultConfig tokenSymbol)) (\<lambda>chain.
            let chainTokenConfig = get (get vaultConfig tokenSymbol) chain in
            ebind (object_keys chainTokenConfig) (\<lambda>chainTokenConfigKeys.
              validateKeys validConfigKeys chainTokenConfigKeys)))))))
      else Inr ())"

text \<open>Lines 280 to 288.\<close>

definition check_blocklist :: "json \<Rightarrow> error + unit" where
  "check_blocklist config =
     (if truthy (get config ''blocklist'') then
        let blocklistConfig = get config ''blocklist'' in
        if \<not> instanceof_Object blocklistConfig then Inl BlocklistNotObject
        else ebind (object_keys blocklistConfig) (\<lambda>keys.
               validateKeys [''path'', ''addresses''] keys)
      else Inr ())"

text \<open>
  The function is \<^verbatim>\<open>async\<close>: its promise is fulfilled (\<open>Inr ()\<close>) or rejected with the
  error thrown (\<open>Inl\<close>).
\<close>

definition validateConfigFileStructure :: "constants \<Rightarrow> json \<Rightarrow> error + unit" where
  "validateConfigFileStructure K config =
     (if \<not> truthy config then Inl ConfigRequired
      else if \<not> instanceof_Object config then Inl ConfigMustBeObject
      else
        ebind (object_keys config) (\<lambda>sectionKeys.
        ebind (validateKeys validSectionKeys sectionKeys) (\<lambda>_.
        ebind (check_chains K config) (\<lambda>enabledChains.
        ebind (check_tokens config) (\<lambda>enabledTokens.
        ebind (check_watchers K config) (\<lambda>_.
        ebind (check_sections config) (\<lambda>_.
        ebind (check_routes enabledChains config) (\<lambda>_.
        ebind (check_fees enabledChains enabledTokens config) (\<lambda>_.
        ebind (check_commitTransfers K enabledChains enabledTokens config) (\<lambda>_.
        ebind (check_bonders enabledChains enabledTokens config) (\<lambda>_.
        ebind (check_vault K config) (\<lambda>_.
        check_blocklist config))))))))))))"

section \<open>validateConfigValues\<close>

text \<open>
  The value pass calls three collaborators that are not code of the validator: the
  \<^verbatim>\<open>URL\<close> class of the runtime, \<^verbatim>\<open>getEnabledTokens\<close> of \<^verbatim>\<open>src/config\<close> and
  \<^verbatim>\<open>getAddress\<close> of ethers. They are parameters of the model. A parsed URL is the two
  fields the validator reads; \<open>parseURL\<close> gives \<open>None\<close> where \<^verbatim>\<open>new URL\<close> throws, and
  \<open>checksumAddress\<close> tells whether \<^verbatim>\<open>getAddress\<close> returns.
\<close>

record url =
  protocol :: string
  host :: string

text \<open>
  A property that a value does not own is looked up on its prototype chain, and what is
  found there need not be a value of JSON: \<^verbatim>\<open>({}).constructor\<close> is the function
  \<^verbatim>\<open>Object\<close>, whose \<^verbatim>\<open>length\<close> is \<^verbatim>\<open>1\<close>. Such a built-in function or object is a
  \<open>native\<close>, known by a name. What the runtime finds for an inherited property
  (\<open>inherited\<close>, \<^verbatim>\<open>undefined\<close> where there is none) and for a property of a native
  (\<open>native_read\<close>) are parameters as well; both reads may raise, as an accessor can.
\<close>

datatype native = Native string

datatype jsval = Plain json | Builtin native

record env =
  parseURL :: "string \<Rightarrow> url option"
  getEnabledTokens :: "string list"
  checksumAddress :: "string \<Rightarrow> bool"
  inherited :: "json \<Rightarrow> string \<Rightarrow> error + jsval"
  native_read :: "native \<Rightarrow> string \<Rightarrow> error + jsval"

text \<open>
  The own properties of a value: the keys of \<open>own_keys\<close>, and \<^verbatim>\<open>length\<close> for an array or
  a string.
\<close>

definition has_own :: "json \<Rightarrow> string \<Rightarrow> bool" where
  "has_own v k \<longleftrightarrow>
     k \<in> set (own_keys v) \<or>
     (k = ''length'' \<and> (case v of JStr s \<Rightarrow> True | JArr xs \<Rightarrow> True | other \<Rightarrow> False))"

text \<open>
  The read \<^verbatim>\<open>v[k]\<close> in full: a TypeError on \<^verbatim>\<open>undefined\<close> and \<^verbatim>\<open>null\<close>, the own
  property where there is one, the prototype chain otherwise.
\<close>

fun read_prop :: "env \<Rightarrow> jsval \<Rightarrow> string \<Rightarrow> error + jsval" where
  "read_prop E (Plain v) k =
     (if nullish v then Inl TypeError
      else if has_own v k then Inr (Plain (get v k))
      else inherited E v k)"
| "read_prop E (Builtin n) k = native_read E n k"

text \<open>\<^verbatim>\<open>typeof x === 'number'\<close>: a native is a function or an object.\<close>

fun is_number :: "jsval \<Rightarrow> bool" where
  "is_number (Plain v) = (typeof v = T_number)"
| "is_number (Builtin n) = False"

text \<open>
  Lines 312 to 319: the \<^verbatim>\<open>URIError\<close> thrown inside the \<^verbatim>\<open>try\<close> block and the error of
  \<^verbatim>\<open>new URL\<close> are both caught and replaced by the one error of line 318.
\<close>

definition check_rpcUrl :: "env \<Rightarrow> string \<Rightarrow> error + unit" where
  "check_rpcUrl E rpcUrl =
     (case parseURL E rpcUrl of
        None \<Rightarrow> Inl (RpcUrlInvalid rpcUrl)
      | Some parsed \<Rightarrow>
          if protocol parsed = [] \<or> host parsed = []
             \<or> protocol parsed \<notin> set [''http:'', ''https:'']
          then Inl (RpcUrlInvalid rpcUrl)
          else Inr ())"

text \<open>Lines 320 to 335: an optional number that must be greater than zero.\<close>

definition check_positive ::
  "json \<Rightarrow> error \<Rightarrow> error \<Rightarrow> error + unit" where
  "check_positive v not_number not_positive =
     (if \<not> nullish v then
        (case v of
           JNum n \<Rightarrow> if n \<le> 0 then Inl not_positive else Inr ()
         | other \<Rightarrow> Inl not_number)
      else Inr ())"

text \<open>Lines 301 to 335: the body of the loop over \<^verbatim>\<open>config.networks\<close>.\<close>

definition validate_network :: "env \<Rightarrow> string \<Rightarrow> json \<Rightarrow> error + unit" where
  "validate_network E chainSlug chain =
     (if \<not> truthy chain then Inl (RpcConfigRequired chain)
      else
        let rpcUrl = get chain ''rpcUrl'';
            maxGasPrice = get chain ''maxGasPrice'';
            waitConfirmations = get chain ''waitConfirmations''
        in
        if \<not> truthy rpcUrl then Inl (RpcUrlRequired chainSlug)
        else
          (case rpcUrl of
             JStr url_text \<Rightarrow>
               ebind (check_rpcUrl E url_text) (\<lambda>_.
               ebind (check_positive waitConfirmations
                        (WaitConfirmationsNotNumber chainSlug)
                        (WaitConfirmationsNotPositive chainSlug)) (\<lambda>_.
               check_positive maxGasPrice
                 (MaxGasPriceNotNumber chainSlug) (MaxGasPriceNotPositive chainSlug)))
           | other \<Rightarrow> Inl (RpcUrlNotString chainSlug)))"

text \<open>
  Lines 340 to 356. The keys of the three reads of line 349 come from
  \<^verbatim>\<open>getEnabledTokens\<close> and from \<^verbatim>\<open>config.routes\<close> and are checked against nothing in this
  function, so the reads can raise and can reach an inherited property: they are
  \<open>read_prop\<close>.
\<close>

definition values_commitTransfers :: "env \<Rightarrow> constants \<Rightarrow> json \<Rightarrow> error + unit" where
  "values_commitTransfers E K config =
     (if truthy (get config ''commitTransfers'') then
        let minThresholdAmount = get (get config ''commitTransfers'') ''minThresholdAmount''
        in
        ebind (object_keys minThresholdAmount) (\<lambda>tokens.
          if tokens \<noteq> [] then
            for_each (getEnabledTokens E) (\<lambda>token.
              for_each (forin_keys (get config ''routes'')) (\<lambda>sourceChain.
                if sourceChain = Chain_Ethereum K then Inr ()
                else
                  for_each (forin_keys (get (get config ''routes'') sourceChain))
                    (\<lambda>destinationChain.
                      ebind (read_prop E (Plain minThresholdAmount) token) (\<lambda>by_token.
                      ebind (read_prop E by_token sourceChain) (\<lambda>by_source.
                      ebind (read_prop E by_source destinationChain) (\<lambda>amount.
                        if \<not> is_number amount
                        then Inl (ThresholdNotNumber token sourceChain destinationChain)
                        else Inr ()))))))
          else Inr ())
      else Inr ())"

text \<open>
  Lines 358 to 375. \<^verbatim>\<open>bonders[token]\<close> is read with a token of \<^verbatim>\<open>getEnabledTokens\<close>; where
  it is inherited it is a built-in without enumerable properties, over which the loop
  runs as little as over \<^verbatim>\<open>undefined\<close>. The keys of the other reads are enumerated.
\<close>

definition values_bonders :: "env \<Rightarrow> json \<Rightarrow> error + unit" where
  "values_bonders E config =
     (if truthy (get config ''bonders'') then
        let bonders = get config ''bonders'' in
        for_each (getEnabledTokens E) (\<lambda>token.
          for_each (forin_keys (get bonders token)) (\<lambda>sourceChain.
            for_each (forin_keys (get (get bonders token) sourceChain))
              (\<lambda>destinationChain.
                (case get (get (get bonders token) sourceChain) destinationChain of
                   JStr bonderAddress \<Rightarrow>
                     if checksumAddress E bonderAddress then Inr ()
                     else Inl (BonderAddressInvalid bonderAddress)
                 | other \<Rightarrow> Inl BonderAddressNotString))))
      else Inr ())"

text \<open>
  Lines 381 to 400: the checks of one entry \<^verbatim>\<open>vault[tokenSymbol][chain]\<close>. The first
  read raises on \<^verbatim>\<open>null\<close>; \<^verbatim>\<open>Set.has\<close> finds a string equal to a member and nothing
  else.
\<close>

definition validate_vault_entry :: "json \<Rightarrow> error + unit" where
  "validate_vault_entry chainTokenConfig =
     ebind (get_prop chainTokenConfig ''autoDeposit'') (\<lambda>autoDeposit.
       if typeof autoDeposit \<noteq> T_boolean then Inl AutoDepositNotBoolean
       else
         ebind (if truthy autoDeposit then
                  if typeof (get chainTokenConfig ''depositThresholdAmount'') \<noteq> T_number
                  then Inl DepositThresholdAmountNotNumber
                  else if typeof (get chainTokenConfig ''depositAmount'') \<noteq> T_number
                  then Inl DepositAmountNotNumber
                  else Inr ()
                else Inr ()) (\<lambda>_.
         if typeof (get chainTokenConfig ''autoWithdraw'') \<noteq> T_boolean
         then Inl AutoWithdrawNotBoolean
         else if get chainTokenConfig ''strategy'' \<notin> set [JStr ''yearn'', JStr ''aave'']
         then Inl StrategyInvalid
         else Inr ()))"

text \<open>Lines 377 to 403.\<close>

definition values_vault :: "json \<Rightarrow> error + unit" where
  "values_vault config =
     (if truthy (get config ''vault'') then
        let vaultConfig = get config ''vault'' in
        for_each (forin_keys vaultConfig) (\<lambda>tokenSymbol.
          for_each (forin_keys (get vaultConfig tokenSymbol)) (\<lambda>chain.
            validate_vault_entry (get (get vaultConfig tokenSymbol) chain)))
      else Inr ())"

text \<open>Lines 405 to 409.\<close>

definition values_blocklist :: "json \<Rightarrow> error + unit" where
  "values_blocklist config =
     (if truthy (get config ''blocklist'') then
        if typeof (get (get config ''blocklist'') ''path'') \<noteq> T_string
        then Inl BlocklistPathNotString
        else Inr ()
      else Inr ())"

definition validateConfigValues :: "env \<Rightarrow> constants \<Rightarrow> json \<Rightarrow> error + unit" where
  "validateConfigValues E K config =
     (if \<not> truthy config then Inl ConfigRequired
      else if \<not> instanceof_Object config then Inl ConfigMustBeObject
      else
        ebind (for_each (forin_keys (get config ''networks'')) (\<lambda>chainSlug.
                 validate_network E chainSlug (get (get config ''networks'') chainSlug)))
          (\<lambda>_.
        ebind (values_commitTransfers E K config) (\<lambda>_.
        ebind (values_bonders E config) (\<lambda>_.
        ebind (values_vault config) (\<lambda>_.
        values_blocklist config)))))"

section \<open>Notions the properties are stated with\<close>

text \<open>
  The two lists that the structural pass computes at lines 96 and 110 and checks every
  later section against.
\<close>

definition enabledChains :: "json \<Rightarrow> string list" where
  "enabledChains config = own_keys (get config ''chains'')"

definition enabledTokens :: "json \<Rightarrow> string list" where
  "enabledTokens config =
     filter (\<lambda>token. truthy (get (get config ''tokens'') token)) (own_keys (get config ''tokens''))"

text \<open>
  The allow-lists of the structural pass, in the words of its description: the section
  names, the chains and the keys of each chain entry, the enabled tokens, the watchers,
  the keys of each optional section that is there, and the keys of the routes, of the
  fee, threshold and bonder matrices and of the vault entries.
\<close>

definition keys_within :: "json \<Rightarrow> string list \<Rightarrow> bool" where
  "keys_within v allowed = (set (own_keys v) \<subseteq> set allowed)"

definition core_keys_allowed :: "constants \<Rightarrow> json \<Rightarrow> bool" where
  "core_keys_allowed K config \<longleftrightarrow>
     keys_within config validSectionKeys \<and>
     keys_within (get config ''chains'') (validChainKeys K) \<and>
     (\<forall>chain\<in>set (own_keys (get config ''chains'')).
        keys_within (get (get config ''chains'') chain) validChainConfigKeys) \<and>
     set (enabledTokens config) \<subseteq> set validTokenKeys \<and>
     keys_within (get config ''watchers'') (validWatcherKeys K)"

definition present_keys_within :: "json \<Rightarrow> string list \<Rightarrow> bool" where
  "present_keys_within section allowed = (truthy section \<longrightarrow> keys_within section allowed)"

definition optional_keys_allowed :: "json \<Rightarrow> bool" where
  "optional_keys_allowed config \<longleftrightarrow>
     present_keys_within (get config ''db'') [''location''] \<and>
     present_keys_within (get config ''logging'') [''level''] \<and>
     present_keys_within (get config ''keystore'') validKeystoreProps \<and>
     present_keys_within (get config ''signer'') validSignerProps \<and>
     present_keys_within (get config ''metrics'') [''enabled'', ''port''] \<and>
     present_keys_within (get config ''addresses'') [''location''] \<and>
     present_keys_within (get config ''blocklist'') [''path'', ''addresses'']"

definition routes_keys_allowed :: "json \<Rightarrow> bool" where
  "routes_keys_allowed config \<longleftrightarrow>
     (let routes = get config ''routes'' in
      truthy routes \<longrightarrow>
        keys_within routes (enabledChains config) \<and>
        (\<forall>sourceChain\<in>set (own_keys routes).
           keys_within (get routes sourceChain) (enabledChains config)))"

definition fees_keys_allowed :: "json \<Rightarrow> bool" where
  "fees_keys_allowed config \<longleftrightarrow>
     (let fees = get config ''fees'' in
      truthy fees \<longrightarrow>
        keys_within fees (enabledTokens config) \<and>
        (\<forall>token\<in>set (own_keys fees). keys_within (get fees token) (enabledChains config)))"

definition commitTransfers_keys_allowed :: "json \<Rightarrow> bool" where
  "commitTransfers_keys_allowed config \<longleftrightarrow>
     (let commitTransfers = get config ''commitTransfers'';
          minThresholdAmount = get commitTransfers ''minThresholdAmount''
      in
      truthy commitTransfers \<longrightarrow>
        keys_within commitTransfers [''minThresholdAmount''] \<and>
        (own_keys minThresholdAmount \<noteq> [] \<longrightarrow>
           keys_within minThresholdAmount (enabledTokens config) \<and>
           (\<forall>token\<in>set (enabledTokens config).
              keys_within (get minThresholdAmount token) (enabledChains config))))"

definition bonders_keys_allowed :: "json \<Rightarrow> bool" where
  "bonders_keys_allowed config \<longleftrightarrow>
     (let bonders = get config ''bonders'' in
      truthy bonders \<longrightarrow>
        keys_within bonders (enabledTokens config) \<and>
        (\<forall>token\<in>set (enabledTokens config).
           keys_within (get bonders token) (enabledChains config) \<and>
           (\<forall>sourceChain\<in>set (own_keys (get bonders token)).
              keys_within (get (get bonders token) sourceChain) (enabledChains config))))"

definition vault_keys_allowed :: "constants \<Rightarrow> json \<Rightarrow> bool" where
  "vault_keys_allowed K config \<longleftrightarrow>
     (let vault = get config ''vault'' in
      truthy vault \<longrightarrow>
        keys_within vault validTokenKeys \<and>
        (\<forall>tokenSymbol\<in>set (own_keys vault).
           keys_within (get vault tokenSymbol) (validChainKeys K) \<and>
           (\<forall>chain\<in>set (own_keys (get vault tokenSymbol)).
              keys_within (get (get vault tokenSymbol) chain) validConfigKeys)))"

definition keys_allowed :: "constants \<Rightarrow> json \<Rightarrow> bool" where
  "keys_allowed K config \<longleftrightarrow>
     core_keys_allowed K config \<and> optional_keys_allowed config \<and>
     routes_keys_allowed config \<and> fees_keys_allowed config \<and>
     commitTransfers_keys_allowed config \<and> bonders_keys_allowed config \<and>
     vault_keys_allowed K config"

text \<open>
  The threshold matrix is complete: every enabled token has an entry for every declared
  route whose source chain is not the base chain. An entry is there for the source when
  its value is truthy.
\<close>

definition thresholds_present :: "constants \<Rightarrow> string list \<Rightarrow> json \<Rightarrow> bool" where
  "thresholds_present K tokens config \<longleftrightarrow>
     (let minThresholdAmount = get (get config ''commitTransfers'') ''minThresholdAmount'';
          routes = get config ''routes''
      in \<forall>token\<in>set tokens.
           \<forall>sourceChain\<in>set (own_keys routes).
             sourceChain \<noteq> Chain_Ethereum K \<longrightarrow>
               (\<forall>destinationChain\<in>set (own_keys (get routes sourceChain)).
                  truthy (get (get (get minThresholdAmount token) sourceChain)
                            destinationChain)))"

text \<open>
  Changes to a configuration, to state what a change does to the outcome: the assignment
  \<^verbatim>\<open>v[k] = x\<close> and \<^verbatim>\<open>delete v[k]\<close> on an object (other values are left as they are),
  the same at the end of a path of keys, and \<open>has_path\<close>, which says that every key of
  a path is there, each in an object.
\<close>

definition set_prop :: "json \<Rightarrow> string \<Rightarrow> json \<Rightarrow> json" where
  "set_prop v k x =
     (case v of
        JObj kvs \<Rightarrow>
          if k \<in> set (map fst kvs)
          then JObj (map (\<lambda>(k', y). if k' = k then (k', x) else (k', y)) kvs)
          else JObj (kvs @ [(k, x)])
      | other \<Rightarrow> other)"

definition delete_prop :: "json \<Rightarrow> string \<Rightarrow> json" where
  "delete_prop v k =
     (case v of
        JObj kvs \<Rightarrow> JObj (filter (\<lambda>(k', y). k' \<noteq> k) kvs)
      | other \<Rightarrow> other)"

fun set_path :: "string list \<Rightarrow> json \<Rightarrow> json \<Rightarrow> json" where
  "set_path [] x v = x"
| "set_path (k # path) x v = set_prop v k (set_path path x (get v k))"

fun delete_path :: "string list \<Rightarrow> json \<Rightarrow> json" where
  "delete_path [] v = v"
| "delete_path [k] v = delete_prop v k"
| "delete_path (k # path) v = set_prop v k (delete_path path (get v k))"

fun has_path :: "string list \<Rightarrow> json \<Rightarrow> bool" where
  "has_path [] v = True"
| "has_path (k # path) v =
     (case v of
        JObj kvs \<Rightarrow> k \<in> set (map fst kvs) \<and> has_path path (get v k)
      | other \<Rightarrow> False)"

text \<open>
  What the value pass asks of a chain of \<^verbatim>\<open>config.networks\<close> and of a vault entry, in
  the words of its description: a non-empty string \<^verbatim>\<open>rpcUrl\<close> that parses as a URL with
  a host and an HTTP or HTTPS scheme; a boolean \<^verbatim>\<open>autoDeposit\<close>, numeric
  \<^verbatim>\<open>depositThresholdAmount\<close> and \<^verbatim>\<open>depositAmount\<close> where it is true, a boolean
  \<^verbatim>\<open>autoWithdraw\<close> and a \<^verbatim>\<open>strategy\<close> that is \<^verbatim>\<open>yearn\<close> or \<^verbatim>\<open>aave\<close>.
\<close>

definition rpcUrl_ok :: "env \<Rightarrow> json \<Rightarrow> bool" where
  "rpcUrl_ok E chain =
     (case get chain ''rpcUrl'' of
        JStr rpcUrl \<Rightarrow>
          rpcUrl \<noteq> [] \<and>
          (case parseURL E rpcUrl of
             Some parsed \<Rightarrow> host parsed \<noteq> [] \<and> protocol parsed \<in> set [''http:'', ''https:'']
           | None \<Rightarrow> False)
      | other \<Rightarrow> False)"

definition vault_entry_ok :: "json \<Rightarrow> bool" where
  "vault_entry_ok chainTokenConfig \<longleftrightarrow>
     typeof (get chainTokenConfig ''autoDeposit'') = T_boolean \<and>
     (get chainTokenConfig ''autoDeposit'' = JBool True \<longrightarrow>
        typeof (get chainTokenConfig ''depositThresholdAmount'') = T_number \<and>
        typeof (get chainTokenConfig ''depositAmount'') = T_number) \<and>
     typeof (get chainTokenConfig ''autoWithdraw'') = T_boolean \<and>
     get chainTokenConfig ''strategy'' \<in> set [JStr ''yearn'', JStr ''aave'']"

section \<open>Example configurations\<close>

definition both_credentials_config :: json where
  "both_credentials_config =
     JObj [(''chains'', JObj [(''ethereum'', JObj [(''rpcUrl'', JStr ''https://host'')])]),
           (''tokens'', JObj [(''USDC'', JBool True)]),
           (''watchers'', JObj []),
           (''keystore'', JObj [(''location'', JStr ''/keystore.json'')]),
           (''signer'', JObj [(''type'', JStr ''kms'')])]"

definition no_base_chain_config :: json where
  "no_base_chain_config =
     JObj [(''chains'', JObj [(''optimism'', JObj [(''rpcUrl'', JStr ''https://host'')])]),
           (''tokens'', JObj [(''USDC'', JBool True)]),
           (''watchers'', JObj [])]"

definition minimal_config :: json where
  "minimal_config =
     JObj [(''chains'', JObj [(''ethereum'', JObj [(''rpcUrl'', JStr ''https://host'')])]),
           (''tokens'', JObj [(''USDC'', JBool True)]),
           (''watchers'', JObj [])]"

definition no_chains_config :: json where
  "no_chains_config =
     JObj [(''tokens'', JObj [(''USDC'', JBool True)]),
           (''watchers'', JObj [])]"

definition chains_only_config :: json where
  "chains_only_config =
     JObj [(''chains'', JObj [(''ethereum'', JObj [(''rpcUrl'', JStr ''https://host'')])])]"

definition no_watchers_config :: json where
  "no_watchers_config =
     JObj [(''chains'', JObj [(''ethereum'', JObj [(''rpcUrl'', JStr ''https://host'')])]),
           (''tokens'', JObj [(''USDC'', JBool True)])]"

definition scenario_config :: json where
  "scenario_config =
     JObj [(''chains'', JObj [(''ethereum'', JObj [(''rpcUrl'', JStr ''https://host'')]),
                             (''optimism'', JObj [(''rpcUrl'', JStr ''https://host'')])]),
           (''tokens'', JObj [(''USDC'', JBool True)]),
           (''watchers'', JObj []),
           (''routes'', JObj [(''ethereum'', JObj [(''optimism'', JBool True)]),
                             (''optimism'', JObj [(''ethereum'', JBool True)])]),
           (''fees'', JObj [(''USDC'', JObj [(''ethereum'', JNum 14), (''optimism'', JNum 14)])]),
           (''commitTransfers'',
              JObj [(''minThresholdAmount'',
                JObj [(''USDC'', JObj [(''optimism'', JObj [(''ethereum'', JNum 100)])])])])]"

definition full_config :: json where
  "full_config =
     JObj [(''chains'', JObj [(''ethereum'', JObj [(''rpcUrl'', JStr ''https://host''),
                                                 (''maxGasPrice'', JNum 50)]),
                             (''optimism'', JObj [(''rpcUrl'', JStr ''https://host'')])]),
           (''tokens'', JObj [(''USDC'', JBool True), (''DAI'', JBool False)]),
           (''watchers'', JObj [(''bondWithdrawal'', JBool True)]),
           (''db'', JObj [(''location'', JStr ''/db'')]),
           (''logging'', JObj [(''level'', JStr ''debug'')]),
           (''keystore'', JObj [(''location'', JStr ''/keystore.json''),
                               (''pass'', JStr ''secret'')]),
           (''metrics'', JObj [(''enabled'', JBool True), (''port'', JNum 8080)]),
           (''addresses'', JObj [(''location'', JStr ''/addresses.json'')]),
           (''routes'', JObj [(''ethereum'', JObj [(''optimism'', JBool True)]),
                             (''optimism'', JObj [(''ethereum'', JBool True)])]),
           (''fees'', JObj [(''USDC'', JObj [(''ethereum'', JNum 14), (''optimism'', JNum 14)])]),
           (''commitTransfers'',
              JObj [(''minThresholdAmount'',
                JObj [(''USDC'', JObj [(''optimism'', JObj [(''ethereum'', JNum 100)])])])]),
           (''bonders'',
              JObj [(''USDC'', JObj [(''ethereum'', JObj [(''optimism'', JStr ''0xBonder'')]),
                                    (''optimism'', JObj [(''ethereum'', JStr ''0xBonder'')])])]),
           (''vault'',
              JObj [(''USDC'', JObj [(''optimism'',
                JObj [(''depositThresholdAmount'', JNum 100), (''depositAmount'', JNum 50),
                      (''strategy'', JStr ''yearn''), (''autoWithdraw'', JBool False),
                      (''autoDeposit'', JBool True)])])]),
           (''blocklist'', JObj [(''path'', JStr ''/blocklist.txt''), (''addresses'', JObj [])])]"

definition null_fee_config :: json where
  "null_fee_config =
     JObj [(''chains'', JObj [(''ethereum'', JObj [(''rpcUrl'', JStr ''https://host'')])]),
           (''tokens'', JObj [(''USDC'', JBool True)]),
           (''watchers'', JObj []),
           (''fees'', JObj [(''USDC'', JNull)])]"

text \<open>
  Collaborators for the examples of the value pass: the URL parser at the two URLs of the
  examples, with the protocol and the host that the runtime's parser reports for them;
  one enabled token; one address that \<^verbatim>\<open>getAddress\<close> accepts; the inherited
  \<^verbatim>\<open>constructor\<close> of an object, which is the function \<^verbatim>\<open>Object\<close>, with its \<^verbatim>\<open>length\<close> and
  its \<^verbatim>\<open>name\<close>.
\<close>

definition example_env :: env where
  "example_env =
     \<lparr> parseURL = (\<lambda>text.
         if text = ''https://host'' then Some \<lparr> protocol = ''https:'', host = ''host'' \<rparr>
         else if text = ''ftp://host'' then Some \<lparr> protocol = ''ftp:'', host = ''host'' \<rparr>
         else None),
       getEnabledTokens = [''USDC''],
       checksumAddress = (\<lambda>address. address = ''0x2A6303e6b99d451Df3566068EBb110708335658f''),
       inherited = (\<lambda>v k.
         case v of
           JObj kvs \<Rightarrow>
             if k = ''constructor'' then Inr (Builtin (Native ''Object''))
             else Inr (Plain JUndef)
         | other \<Rightarrow> Inr (Plain JUndef)),
       native_read = (\<lambda>n k.
         if n = Native ''Object'' \<and> k = ''length'' then Inr (Plain (JNum 1))
         else if n = Native ''Object'' \<and> k = ''name'' then Inr (Plain (JStr ''Object''))
         else Inr (Plain JUndef)) \<rparr>"

text \<open>
  Two resolved configurations whose routes name inherited properties: the threshold read
  of line 349 finds \<^verbatim>\<open>Object.length\<close>, a number, for the first and \<^verbatim>\<open>Object.name\<close>, a
  string, for the second.
\<close>

definition inherited_length_config :: json where
  "inherited_length_config =
     JObj [(''routes'', JObj [(''constructor'', JObj [(''length'', JBool True)])]),
           (''commitTransfers'', JObj [(''minThresholdAmount'', JObj [(''USDC'', JObj [])])])]"

definition inherited_name_config :: json where
  "inherited_name_config =
     JObj [(''routes'', JObj [(''constructor'', JObj [(''name'', JBool True)])]),
           (''commitTransfers'', JObj [(''minThresholdAmount'', JObj [(''USDC'', JObj [])])])]"

definition resolved_config :: json where
  "resolved_config =
     JObj [(''networks'',
              JObj [(''ethereum'', JObj [(''rpcUrl'', JStr ''https://host''),
                                        (''waitConfirmations'', JNum 1)]),
                    (''optimism'', JObj [(''rpcUrl'', JStr ''https://host''),
                                        (''maxGasPrice'', JNum 50)])]),
           (''routes'', JObj [(''ethereum'', JObj [(''optimism'', JBool True)]),
                             (''optimism'', JObj [(''ethereum'', JBool True)])]),
           (''commitTransfers'',
              JObj [(''minThresholdAmount'',
                JObj [(''USDC'', JObj [(''optimism'', JObj [(''ethereum'', JNum 100)])])])]),
           (''bonders'',
              JObj [(''USDC'', JObj [(''ethereum'', JObj [(''optimism'',
                       JStr ''0x2A6303e6b99d451Df3566068EBb110708335658f'')])])]),
           (''vault'',
              JObj [(''USDC'', JObj [(''optimism'',
                JObj [(''depositThresholdAmount'', JNum 100), (''depositAmount'', JNum 50),
                      (''strategy'', JStr ''yearn''), (''autoWithdraw'', JBool False),
                      (''autoDeposit'', JBool True)])])]),
           (''blocklist'', JObj [(''path'', JStr ''/blocklist.txt'')])]"

definition ftp_config :: json where
  "ftp_config =
     JObj [(''networks'', JObj [(''ethereum'', JObj [(''rpcUrl'', JStr ''ftp://host'')])])]"

definition deposit_amount_missing_config :: json where
  "deposit_amount_missing_config =
     JObj [(''networks'', JObj [(''ethereum'', JObj [(''rpcUrl'', JStr ''https://host'')]),
                               (''optimism'', JObj [(''rpcUrl'', JStr ''https://host'')])]),
           (''vault'',
              JObj [(''USDC'', JObj [(''optimism'',
                JObj [(''depositThresholdAmount'', JNum 100),
                      (''strategy'', JStr ''yearn''), (''autoWithdraw'', JBool False),
                      (''autoDeposit'', JBool True)])])])]"

definition both_amounts_missing_config :: json where
  "both_amounts_missing_config =
     JObj [(''networks'', JObj [(''ethereum'', JObj [(''rpcUrl'', JStr ''https://host'')]),
                               (''optimism'', JObj [(''rpcUrl'', JStr ''https://host'')])]),
           (''vault'',
              JObj [(''USDC'', JObj [(''optimism'',
                JObj [(''strategy'', JStr ''yearn''), (''autoWithdraw'', JBool False),
                      (''autoDeposit'', JBool True)])])])]"

section \<open>Basic facts\<close>

lemma ebind_Inl [simp]: "ebind (Inl e) f = Inl e"
  by (simp add: ebind_def)

lemma ebind_Inr [simp]: "ebind (Inr x) f = f x"
  by (simp add: ebind_def)

lemma ebind_eq_Inr: "ebind m f = Inr y \<longleftrightarrow> (\<exists>x. m = Inr x \<and> f x = Inr y)"
  by (cases m) simp_all

lemma not_Inr_unit: "r \<noteq> Inr () \<longleftrightarrow> (\<exists>e. r = Inl e)"
  by (cases r) simp_all

lemma for_each_eq_Inr: "for_each xs body = Inr () \<longleftrightarrow> (\<forall>x\<in>set xs. body x = Inr ())"
  by (induction xs) (auto split: sum.splits)

lemma validateKeys_eq_Inr: "validateKeys validKeys keys = Inr () \<longleftrightarrow> set keys \<subseteq> set validKeys"
  by (induction keys) auto

lemma validateKeys_first_bad:
  "set pre \<subseteq> set validKeys \<Longrightarrow> key \<notin> set validKeys \<Longrightarrow>
   validateKeys validKeys (pre @ key # post) = Inl (UnrecognizedKey key validKeys)"
  by (induction pre) auto

lemma object_keys_eq_Inr: "object_keys v = Inr ks \<longleftrightarrow> \<not> nullish v \<and> ks = own_keys v"
  by (auto simp: object_keys_def)

lemma object_keys_nullish: "nullish v \<Longrightarrow> object_keys v = Inl TypeError"
  by (simp add: object_keys_def)

lemma truthy_not_nullish: "truthy v \<Longrightarrow> \<not> nullish v"
  by (cases v) simp_all

lemma check_chains_result: "check_chains K config = Inr eC \<Longrightarrow> eC = enabledChains config"
  by (auto simp: check_chains_def enabledChains_def ebind_eq_Inr object_keys_eq_Inr split: if_splits)

lemma check_tokens_result: "check_tokens config = Inr eT \<Longrightarrow> eT = enabledTokens config"
  by (auto simp: check_tokens_def enabledTokens_def Let_def ebind_eq_Inr object_keys_eq_Inr)

lemma validate_eq_Inr:
  "validateConfigFileStructure K config = Inr () \<longleftrightarrow>
     truthy config \<and> instanceof_Object config \<and>
     validateKeys validSectionKeys (own_keys config) = Inr () \<and>
     check_chains K config = Inr (enabledChains config) \<and>
     check_tokens config = Inr (enabledTokens config) \<and>
     check_watchers K config = Inr () \<and>
     check_sections config = Inr () \<and>
     check_routes (enabledChains config) config = Inr () \<and>
     check_fees (enabledChains config) (enabledTokens config) config = Inr () \<and>
     check_commitTransfers K (enabledChains config) (enabledTokens config) config = Inr () \<and>
     check_bonders (enabledChains config) (enabledTokens config) config = Inr () \<and>
     check_vault K config = Inr () \<and>
     check_blocklist config = Inr ()"
  (is "?l \<longleftrightarrow> ?r")
proof
  assume l: ?l
  then have guards: "truthy config" "instanceof_Object config"
    by (auto simp: validateConfigFileStructure_def split: if_splits)
  with l obtain eC eT where
    parts: "validateKeys validSectionKeys (own_keys config) = Inr ()"
      "check_chains K config = Inr eC" "check_tokens config = Inr eT"
      "check_watchers K config = Inr ()" "check_sections config = Inr ()"
      "check_routes eC config = Inr ()" "check_fees eC eT config = Inr ()"
      "check_commitTransfers K eC eT config = Inr ()"
      "check_bonders eC eT config = Inr ()" "check_vault K config = Inr ()"
      "check_blocklist config = Inr ()"
    by (auto simp: validateConfigFileStructure_def ebind_eq_Inr object_keys_eq_Inr)
  from parts(2) have "eC = enabledChains config" by (rule check_chains_result)
  moreover from parts(3) have "eT = enabledTokens config" by (rule check_tokens_result)
  ultimately show ?r using guards parts by simp
next
  assume ?r
  then show ?l
    by (simp add: validateConfigFileStructure_def object_keys_def truthy_not_nullish)
qed

lemma check_sections_exclusive:
  "truthy (get config ''keystore'') \<Longrightarrow> truthy (get config ''signer'') \<Longrightarrow> \<not> nullish config \<Longrightarrow>
   check_sections config = Inl KeystoreAndSigner"
  by (simp add: check_sections_def get_opt_def)

lemmas structure_defs = validateConfigFileStructure_def check_chains_def check_tokens_def check_watchers_def
  check_sections_def check_section_keys_def check_logging_def check_routes_def check_fees_def
  check_commitTransfers_def check_bonders_def check_vault_def check_blocklist_def
  object_keys_def forin_keys_def get_opt_def set_add_def
  validSectionKeys_def validWatcherKeys_def validChainKeys_def validTokenKeys_def validChainConfigKeys_def
  validLoggingLevels_def validKeystoreProps_def validSignerProps_def validConfigKeys_def hop_constants_def

section \<open>The key set validator\<close>

text \<open>
  C8: \<open>validateKeys\<close> succeeds exactly when every key found is in the list of the allowed
  keys. Where the found keys have a key that is not allowed, it fails at the first such
  key in the order of the list, with the error that names that key and carries the whole
  list of the allowed keys.
\<close>

theorem validateKeys_contract:
  "(validateKeys validKeys keys = Inr () \<longleftrightarrow> (\<forall>key\<in>set keys. key \<in> set validKeys)) \<and>
   (\<forall>pre key post.
      keys = pre @ key # post \<and> (\<forall>k\<in>set pre. k \<in> set validKeys) \<and> key \<notin> set validKeys
      \<longrightarrow> validateKeys validKeys keys = Inl (UnrecognizedKey key validKeys))"
  by (auto simp: validateKeys_eq_Inr intro!: validateKeys_first_bad)

theorem validateKeys_contract_witness:
  "''rpcUrl'' \<in> set validChainConfigKeys \<and>
   validateKeys validChainConfigKeys [''rpcUrl''] = Inr () \<and>
   ''gasPrice'' \<notin> set validChainConfigKeys \<and>
   validateKeys validChainConfigKeys [''rpcUrl'', ''gasPrice'', ''chainId''] =
     Inl (UnrecognizedKey ''gasPrice'' [''rpcUrl'', ''maxGasPrice''])"
proof -
  have ok: "\<forall>key\<in>set [''rpcUrl'']. key \<in> set validChainConfigKeys"
    by (simp add: validChainConfigKeys_def)
  have bad: "''gasPrice'' \<notin> set validChainConfigKeys"
    by (simp add: validChainConfigKeys_def)
  have split: "[''rpcUrl'', ''gasPrice'', ''chainId''] = [''rpcUrl''] @ ''gasPrice'' # [''chainId'']"
    by simp
  from validateKeys_contract [of validChainConfigKeys "[''rpcUrl'']"] ok
  have first: "validateKeys validChainConfigKeys [''rpcUrl''] = Inr ()"
    by blast
  from validateKeys_contract [of validChainConfigKeys "[''rpcUrl'', ''gasPrice'', ''chainId'']"]
    ok bad split
  have "validateKeys validChainConfigKeys [''rpcUrl'', ''gasPrice'', ''chainId''] =
          Inl (UnrecognizedKey ''gasPrice'' validChainConfigKeys)"
    by blast
  with ok bad first show ?thesis
    by (simp add: validChainConfigKeys_def)
qed

section \<open>Required and exclusive sections\<close>

text \<open>
  C4: a configuration in which the keystore section and the signer section are both
  present is never accepted. A section is present when the test of the source,
  \<^verbatim>\<open>config?.keystore && config?.signer\<close>, finds it: its value is truthy, which every
  object is. Where the checks of lines 25 to 114 pass, the error is the one of line 117.
\<close>

theorem keystore_signer_exclusive:
  assumes "truthy (get config ''keystore'')" and "truthy (get config ''signer'')"
  shows "(\<exists>e. validateConfigFileStructure K config = Inl e) \<and>
         (truthy config \<and> instanceof_Object config \<and>
          validateKeys validSectionKeys (own_keys config) = Inr () \<and>
          check_chains K config = Inr (enabledChains config) \<and>
          check_tokens config = Inr (enabledTokens config) \<and>
          check_watchers K config = Inr ()
          \<longrightarrow> validateConfigFileStructure K config = Inl KeystoreAndSigner)"
proof (intro conjI impI)
  show "\<exists>e. validateConfigFileStructure K config = Inl e"
  proof (rule ccontr)
    assume "\<not> (\<exists>e. validateConfigFileStructure K config = Inl e)"
    then have ok: "validateConfigFileStructure K config = Inr ()"
      by (simp add: not_Inr_unit [symmetric])
    then have "truthy config" and "check_sections config = Inr ()"
      by (simp_all add: validate_eq_Inr)
    with assms show False
      by (simp add: check_sections_exclusive truthy_not_nullish)
  qed
next
  assume pre: "truthy config \<and> instanceof_Object config \<and>
          validateKeys validSectionKeys (own_keys config) = Inr () \<and>
          check_chains K config = Inr (enabledChains config) \<and>
          check_tokens config = Inr (enabledTokens config) \<and>
          check_watchers K config = Inr ()"
  then have "check_sections config = Inl KeystoreAndSigner"
    using assms by (simp add: check_sections_exclusive truthy_not_nullish)
  with pre show "validateConfigFileStructure K config = Inl KeystoreAndSigner"
    by (simp add: validateConfigFileStructure_def object_keys_def truthy_not_nullish)
qed

theorem keystore_signer_exclusive_witness:
  "truthy (get both_credentials_config ''keystore'') \<and>
   truthy (get both_credentials_config ''signer'') \<and>
   validateConfigFileStructure hop_constants both_credentials_config = Inl KeystoreAndSigner"
proof -
  have k: "truthy (get both_credentials_config ''keystore'')"
    and s: "truthy (get both_credentials_config ''signer'')"
    by (simp_all add: both_credentials_config_def)
  have pre: "truthy both_credentials_config \<and> instanceof_Object both_credentials_config \<and>
          validateKeys validSectionKeys (own_keys both_credentials_config) = Inr () \<and>
          check_chains hop_constants both_credentials_config
            = Inr (enabledChains both_credentials_config) \<and>
          check_tokens both_credentials_config = Inr (enabledTokens both_credentials_config) \<and>
          check_watchers hop_constants both_credentials_config = Inr ()"
    by (simp add: both_credentials_config_def enabledChains_def enabledTokens_def structure_defs)
  from keystore_signer_exclusive [OF k s, of hop_constants] pre k s show ?thesis
    by blast
qed

text \<open>
  C5: a configuration whose \<^verbatim>\<open>chains\<close> section has no key for the base chain
  \<^verbatim>\<open>Chain.Ethereum\<close> fails, and every accepted configuration has that key. Where the
  section names are recognized and \<^verbatim>\<open>chains\<close> is there, the error is the one of line
  98, which names the base chain.
\<close>

theorem base_chain_required:
  "(Chain_Ethereum K \<notin> set (own_keys (get config ''chains''))
      \<longrightarrow> (\<exists>e. validateConfigFileStructure K config = Inl e)) \<and>
   (validateConfigFileStructure K config = Inr ()
      \<longrightarrow> Chain_Ethereum K \<in> set (own_keys (get config ''chains''))) \<and>
   (Chain_Ethereum K \<notin> set (own_keys (get config ''chains'')) \<and>
    truthy config \<and> instanceof_Object config \<and>
    validateKeys validSectionKeys (own_keys config) = Inr () \<and>
    \<not> nullish (get config ''chains'')
      \<longrightarrow> validateConfigFileStructure K config = Inl (ChainRequired (Chain_Ethereum K)))"
proof -
  have req: "Chain_Ethereum K \<in> set (own_keys (get config ''chains''))"
    if "validateConfigFileStructure K config = Inr ()"
  proof -
    from that have "check_chains K config = Inr (enabledChains config)"
      by (simp add: validate_eq_Inr)
    then show ?thesis
      by (auto simp: check_chains_def ebind_eq_Inr object_keys_eq_Inr split: if_splits)
  qed
  have err: "validateConfigFileStructure K config = Inl (ChainRequired (Chain_Ethereum K))"
    if "Chain_Ethereum K \<notin> set (own_keys (get config ''chains''))"
      "truthy config" "instanceof_Object config"
      "validateKeys validSectionKeys (own_keys config) = Inr ()"
      "\<not> nullish (get config ''chains'')"
    using that
    by (simp add: validateConfigFileStructure_def check_chains_def object_keys_def
          truthy_not_nullish)
  from req err show ?thesis
    by (auto simp: not_Inr_unit [symmetric])
qed

theorem base_chain_required_witness:
  "Chain_Ethereum hop_constants \<notin> set (own_keys (get no_base_chain_config ''chains'')) \<and>
   validateConfigFileStructure hop_constants no_base_chain_config
     = Inl (ChainRequired ''ethereum'') \<and>
   validateConfigFileStructure hop_constants minimal_config = Inr () \<and>
   Chain_Ethereum hop_constants \<in> set (own_keys (get minimal_config ''chains''))"
proof -
  have absent: "Chain_Ethereum hop_constants
                  \<notin> set (own_keys (get no_base_chain_config ''chains''))"
    by (simp add: no_base_chain_config_def hop_constants_def)
  have rest: "truthy no_base_chain_config \<and> instanceof_Object no_base_chain_config \<and>
      validateKeys validSectionKeys (own_keys no_base_chain_config) = Inr () \<and>
      \<not> nullish (get no_base_chain_config ''chains'')"
    by (simp add: no_base_chain_config_def validSectionKeys_def)
  have ok: "validateConfigFileStructure hop_constants minimal_config = Inr ()"
    by (simp add: minimal_config_def structure_defs)
  from base_chain_required [of hop_constants no_base_chain_config] absent rest
  have "validateConfigFileStructure hop_constants no_base_chain_config
          = Inl (ChainRequired (Chain_Ethereum hop_constants))"
    by blast
  moreover from base_chain_required [of hop_constants minimal_config] ok
  have "Chain_Ethereum hop_constants \<in> set (own_keys (get minimal_config ''chains''))"
    by blast
  ultimately show ?thesis using absent ok
    by (simp add: hop_constants_def)
qed

text \<open>
  C10: the keys of \<^verbatim>\<open>config.chains\<close>, \<^verbatim>\<open>config.tokens\<close> and \<^verbatim>\<open>config.watchers\<close> are
  enumerated unconditionally, so a configuration that lacks one of the three sections is
  never accepted, although the list of the section names alone admits it: where the
  checks before the enumeration pass, the run ends with the TypeError of
  \<^verbatim>\<open>Object.keys\<close>.
\<close>

theorem chains_tokens_watchers_required:
  assumes "section \<in> {''chains'', ''tokens'', ''watchers''}"
    and "nullish (get config section)"
  shows "(\<exists>e. validateConfigFileStructure K config = Inl e) \<and>
         (truthy config \<and> instanceof_Object config \<and>
          validateKeys validSectionKeys (own_keys config) = Inr () \<and>
          (section = ''tokens'' \<longrightarrow> check_chains K config = Inr (enabledChains config)) \<and>
          (section = ''watchers'' \<longrightarrow> check_chains K config = Inr (enabledChains config)
                                   \<and> check_tokens config = Inr (enabledTokens config))
          \<longrightarrow> validateConfigFileStructure K config = Inl TypeError)"
proof (intro conjI impI)
  show "\<exists>e. validateConfigFileStructure K config = Inl e"
  proof (rule ccontr)
    assume "\<not> (\<exists>e. validateConfigFileStructure K config = Inl e)"
    then have "validateConfigFileStructure K config = Inr ()"
      by (simp add: not_Inr_unit [symmetric])
    then have "check_chains K config = Inr (enabledChains config)"
      "check_tokens config = Inr (enabledTokens config)"
      "check_watchers K config = Inr ()"
      by (simp_all add: validate_eq_Inr)
    then have "\<not> nullish (get config ''chains'')" "\<not> nullish (get config ''tokens'')"
      "\<not> nullish (get config ''watchers'')"
      by (auto simp: check_chains_def check_tokens_def check_watchers_def ebind_eq_Inr
            object_keys_eq_Inr)
    with assms show False by auto
  qed
next
  assume pre: "truthy config \<and> instanceof_Object config \<and>
          validateKeys validSectionKeys (own_keys config) = Inr () \<and>
          (section = ''tokens'' \<longrightarrow> check_chains K config = Inr (enabledChains config)) \<and>
          (section = ''watchers'' \<longrightarrow> check_chains K config = Inr (enabledChains config)
                                   \<and> check_tokens config = Inr (enabledTokens config))"
  from assms(1) consider "section = ''chains''" | "section = ''tokens''" | "section = ''watchers''"
    by auto
  then show "validateConfigFileStructure K config = Inl TypeError"
  proof cases
    case 1
    with assms(2) have "check_chains K config = Inl TypeError"
      by (simp add: check_chains_def object_keys_nullish)
    with pre show ?thesis
      by (simp add: validateConfigFileStructure_def object_keys_def truthy_not_nullish)
  next
    case 2
    with assms(2) have "check_tokens config = Inl TypeError"
      by (simp add: check_tokens_def object_keys_nullish)
    with pre 2 show ?thesis
      by (simp add: validateConfigFileStructure_def object_keys_def truthy_not_nullish)
  next
    case 3
    with assms(2) have "check_watchers K config = Inl TypeError"
      by (simp add: check_watchers_def object_keys_nullish)
    with pre 3 show ?thesis
      by (simp add: validateConfigFileStructure_def object_keys_def truthy_not_nullish)
  qed
qed

theorem chains_tokens_watchers_required_witness:
  "nullish (get no_chains_config ''chains'') \<and>
   validateKeys validSectionKeys (own_keys no_chains_config) = Inr () \<and>
   validateConfigFileStructure hop_constants no_chains_config = Inl TypeError \<and>
   nullish (get chains_only_config ''tokens'') \<and>
   validateKeys validSectionKeys (own_keys chains_only_config) = Inr () \<and>
   validateConfigFileStructure hop_constants chains_only_config = Inl TypeError \<and>
   nullish (get no_watchers_config ''watchers'') \<and>
   validateKeys validSectionKeys (own_keys no_watchers_config) = Inr () \<and>
   validateConfigFileStructure hop_constants no_watchers_config = Inl TypeError"
proof -
  have m: "''chains'' \<in> {''chains'', ''tokens'', ''watchers''}"
    "''tokens'' \<in> {''chains'', ''tokens'', ''watchers''}"
    "''watchers'' \<in> {''chains'', ''tokens'', ''watchers''}"
    by simp_all
  have n: "nullish (get no_chains_config ''chains'')"
    "nullish (get chains_only_config ''tokens'')"
    "nullish (get no_watchers_config ''watchers'')"
    by (simp_all add: no_chains_config_def chains_only_config_def no_watchers_config_def)
  have pre_chains: "truthy no_chains_config \<and> instanceof_Object no_chains_config \<and>
      validateKeys validSectionKeys (own_keys no_chains_config) = Inr ()"
    by (simp add: no_chains_config_def validSectionKeys_def)
  have pre_tokens: "truthy chains_only_config \<and> instanceof_Object chains_only_config \<and>
      validateKeys validSectionKeys (own_keys chains_only_config) = Inr () \<and>
      check_chains hop_constants chains_only_config = Inr (enabledChains chains_only_config)"
    by (simp add: chains_only_config_def enabledChains_def structure_defs)
  have pre_watchers: "truthy no_watchers_config \<and> instanceof_Object no_watchers_config \<and>
      validateKeys validSectionKeys (own_keys no_watchers_config) = Inr () \<and>
      check_chains hop_constants no_watchers_config = Inr (enabledChains no_watchers_config) \<and>
      check_tokens no_watchers_config = Inr (enabledTokens no_watchers_config)"
    by (simp add: no_watchers_config_def enabledChains_def enabledTokens_def structure_defs)
  from chains_tokens_watchers_required [OF m(1) n(1), of hop_constants] pre_chains
  have a: "validateConfigFileStructure hop_constants no_chains_config = Inl TypeError"
    by simp
  from chains_tokens_watchers_required [OF m(2) n(2), of hop_constants] pre_tokens
  have b: "validateConfigFileStructure hop_constants chains_only_config = Inl TypeError"
    by simp
  from chains_tokens_watchers_required [OF m(3) n(3), of hop_constants] pre_watchers
  have c: "validateConfigFileStructure hop_constants no_watchers_config = Inl TypeError"
    by simp
  from n pre_chains pre_tokens pre_watchers a b c show ?thesis
    by blast
qed

section \<open>The allow-lists\<close>

lemma check_section_keys_within:
  "check_section_keys allowed section = Inr () \<Longrightarrow> present_keys_within section allowed"
  by (auto simp: check_section_keys_def present_keys_within_def keys_within_def ebind_eq_Inr
        object_keys_eq_Inr validateKeys_eq_Inr)

lemma check_chains_keys:
  assumes "check_chains K config = Inr eC"
  shows "keys_within (get config ''chains'') (validChainKeys K)"
    and "\<forall>chain\<in>set (own_keys (get config ''chains'')).
           keys_within (get (get config ''chains'') chain) validChainConfigKeys"
  using assms
  by (auto simp: check_chains_def keys_within_def ebind_eq_Inr object_keys_eq_Inr
        validateKeys_eq_Inr for_each_eq_Inr forin_keys_def split: if_splits)

lemma check_tokens_keys:
  "check_tokens config = Inr eT \<Longrightarrow> set (enabledTokens config) \<subseteq> set validTokenKeys"
  by (auto simp: check_tokens_def enabledTokens_def Let_def ebind_eq_Inr object_keys_eq_Inr
        validateKeys_eq_Inr)

lemma check_watchers_keys:
  "check_watchers K config = Inr () \<Longrightarrow> keys_within (get config ''watchers'') (validWatcherKeys K)"
  by (auto simp: check_watchers_def keys_within_def ebind_eq_Inr object_keys_eq_Inr
        validateKeys_eq_Inr)

lemma check_logging_keys:
  "check_logging config = Inr () \<Longrightarrow> present_keys_within (get config ''logging'') [''level'']"
  by (auto simp: check_logging_def present_keys_within_def keys_within_def ebind_eq_Inr
        object_keys_eq_Inr validateKeys_eq_Inr split: if_splits)

lemma check_blocklist_keys:
  "check_blocklist config = Inr () \<Longrightarrow>
   present_keys_within (get config ''blocklist'') [''path'', ''addresses'']"
  by (auto simp: check_blocklist_def present_keys_within_def keys_within_def Let_def ebind_eq_Inr
        object_keys_eq_Inr validateKeys_eq_Inr split: if_splits)

lemma check_sections_keys:
  assumes "check_sections config = Inr ()"
  shows "present_keys_within (get config ''db'') [''location'']"
    and "present_keys_within (get config ''logging'') [''level'']"
    and "present_keys_within (get config ''keystore'') validKeystoreProps"
    and "present_keys_within (get config ''signer'') validSignerProps"
    and "present_keys_within (get config ''metrics'') [''enabled'', ''port'']"
    and "present_keys_within (get config ''addresses'') [''location'']"
proof -
  from assms have parts:
    "check_section_keys [''location''] (get config ''db'') = Inr ()"
    "check_logging config = Inr ()"
    "check_section_keys validKeystoreProps (get config ''keystore'') = Inr ()"
    "check_section_keys validSignerProps (get config ''signer'') = Inr ()"
    "check_section_keys [''enabled'', ''port''] (get config ''metrics'') = Inr ()"
    "check_section_keys [''location''] (get config ''addresses'') = Inr ()"
    by (auto simp: check_sections_def ebind_eq_Inr split: if_splits)
  from parts show "present_keys_within (get config ''db'') [''location'']"
    and "present_keys_within (get config ''logging'') [''level'']"
    and "present_keys_within (get config ''keystore'') validKeystoreProps"
    and "present_keys_within (get config ''signer'') validSignerProps"
    and "present_keys_within (get config ''metrics'') [''enabled'', ''port'']"
    and "present_keys_within (get config ''addresses'') [''location'']"
    by (simp_all add: check_section_keys_within check_logging_keys)
qed

lemma check_routes_keys:
  "check_routes (enabledChains config) config = Inr () \<Longrightarrow> routes_keys_allowed config"
  by (auto simp: check_routes_def routes_keys_allowed_def keys_within_def Let_def ebind_eq_Inr
        object_keys_eq_Inr validateKeys_eq_Inr for_each_eq_Inr forin_keys_def split: if_splits)

lemma check_fees_keys:
  "check_fees (enabledChains config) eT config = Inr () \<Longrightarrow> eT = enabledTokens config \<Longrightarrow>
   fees_keys_allowed config"
  by (auto simp: check_fees_def fees_keys_allowed_def keys_within_def Let_def ebind_eq_Inr
        object_keys_eq_Inr validateKeys_eq_Inr for_each_eq_Inr forin_keys_def split: if_splits)

lemma check_commitTransfers_keys:
  "check_commitTransfers K (enabledChains config) (enabledTokens config) config = Inr () \<Longrightarrow>
   commitTransfers_keys_allowed config"
  by (auto simp: check_commitTransfers_def commitTransfers_keys_allowed_def keys_within_def
        Let_def ebind_eq_Inr object_keys_eq_Inr validateKeys_eq_Inr for_each_eq_Inr
        forin_keys_def split: if_splits)

lemma check_bonders_keys:
  "check_bonders (enabledChains config) (enabledTokens config) config = Inr () \<Longrightarrow>
   bonders_keys_allowed config"
  by (auto simp: check_bonders_def bonders_keys_allowed_def keys_within_def
        Let_def ebind_eq_Inr object_keys_eq_Inr validateKeys_eq_Inr for_each_eq_Inr
        forin_keys_def split: if_splits)

lemma check_vault_keys:
  "check_vault K config = Inr () \<Longrightarrow> vault_keys_allowed K config"
  by (auto simp: check_vault_def vault_keys_allowed_def keys_within_def
        Let_def ebind_eq_Inr object_keys_eq_Inr validateKeys_eq_Inr for_each_eq_Inr
        forin_keys_def split: if_splits)

text \<open>
  C3, as amended: structural validation accepts a configuration only if every key that
  the pass checks is in its allow-list (\<open>keys_allowed\<close>). The converse, which C3 also
  claims, fails: the pass asks for more than recognized keys.
\<close>

theorem accepted_keys_allowed:
  assumes "validateConfigFileStructure K config = Inr ()"
  shows "keys_allowed K config"
proof -
  from assms have parts:
    "validateKeys validSectionKeys (own_keys config) = Inr ()"
    "check_chains K config = Inr (enabledChains config)"
    "check_tokens config = Inr (enabledTokens config)"
    "check_watchers K config = Inr ()"
    "check_sections config = Inr ()"
    "check_routes (enabledChains config) config = Inr ()"
    "check_fees (enabledChains config) (enabledTokens config) config = Inr ()"
    "check_commitTransfers K (enabledChains config) (enabledTokens config) config = Inr ()"
    "check_bonders (enabledChains config) (enabledTokens config) config = Inr ()"
    "check_vault K config = Inr ()"
    "check_blocklist config = Inr ()"
    by (simp_all add: validate_eq_Inr)
  have "core_keys_allowed K config"
    unfolding core_keys_allowed_def
    using parts(1) check_chains_keys [OF parts(2)] check_tokens_keys [OF parts(3)]
      check_watchers_keys [OF parts(4)]
    by (simp add: keys_within_def validateKeys_eq_Inr)
  moreover have "optional_keys_allowed config"
    unfolding optional_keys_allowed_def
    using check_sections_keys [OF parts(5)] check_blocklist_keys [OF parts(11)]
    by simp
  moreover have "routes_keys_allowed config"
    using parts(6) by (rule check_routes_keys)
  moreover have "fees_keys_allowed config"
    using parts(7) by (rule check_fees_keys) simp
  moreover have "commitTransfers_keys_allowed config"
    using parts(8) by (rule check_commitTransfers_keys)
  moreover have "bonders_keys_allowed config"
    using parts(9) by (rule check_bonders_keys)
  moreover have "vault_keys_allowed K config"
    using parts(10) by (rule check_vault_keys)
  ultimately show ?thesis
    by (simp add: keys_allowed_def)
qed

lemmas keys_allowed_defs = keys_allowed_def core_keys_allowed_def optional_keys_allowed_def
  routes_keys_allowed_def fees_keys_allowed_def commitTransfers_keys_allowed_def
  bonders_keys_allowed_def vault_keys_allowed_def keys_within_def present_keys_within_def
  enabledChains_def enabledTokens_def

theorem accepted_keys_allowed_witness:
  "validateConfigFileStructure hop_constants full_config = Inr () \<and>
   keys_allowed hop_constants full_config"
proof -
  have valid: "validateConfigFileStructure hop_constants full_config = Inr ()"
    by (simp add: full_config_def structure_defs)
  from accepted_keys_allowed [OF valid] valid show ?thesis
    by simp
qed

text \<open>
  A configuration with recognized keys only that has both a keystore and a signer: it is
  rejected, so recognized keys are not sufficient.
\<close>

theorem keys_allowed_not_sufficient:
  "\<not> (validateConfigFileStructure hop_constants both_credentials_config = Inr ()
        \<longleftrightarrow> keys_allowed hop_constants both_credentials_config)"
proof -
  have "keys_allowed hop_constants both_credentials_config"
    by (simp add: both_credentials_config_def keys_allowed_defs structure_defs)
  moreover have "validateConfigFileStructure hop_constants both_credentials_config
                   = Inl KeystoreAndSigner"
    by (simp add: both_credentials_config_def structure_defs)
  ultimately show ?thesis by simp
qed

section \<open>Writes and deletions\<close>

lemma get_opt_eq_get [simp]: "get_opt v k = get v k"
  by (cases v) (simp_all add: get_opt_def)

lemma lookup_map_upd:
  "lookup (map (\<lambda>(k', y). if k' = k then (k', x) else (k', y)) kvs) k' =
     (if k' = k \<and> k \<in> set (map fst kvs) then x else lookup kvs k')"
  by (induction kvs) (force split: if_splits)+

lemma lookup_append_new:
  "k \<notin> set (map fst kvs) \<Longrightarrow> lookup (kvs @ [(k, x)]) k' = (if k' = k then x else lookup kvs k')"
  by (induction kvs) auto

lemma lookup_filter:
  "lookup (filter (\<lambda>(k', y). k' \<noteq> k) kvs) k' = (if k' = k then JUndef else lookup kvs k')"
  by (induction kvs) auto

lemma get_set_prop:
  "get (set_prop (JObj kvs) k x) k' = (if k' = k then x else get (JObj kvs) k')"
  by (simp add: set_prop_def lookup_map_upd lookup_append_new)

lemma own_keys_set_prop:
  "k \<in> set (map fst kvs) \<Longrightarrow> own_keys (set_prop (JObj kvs) k x) = own_keys (JObj kvs)"
  by (induction kvs) (auto simp: set_prop_def)

lemma set_prop_is_object: "\<exists>kvs'. set_prop (JObj kvs) k x = JObj kvs'"
  by (simp add: set_prop_def)

lemma get_delete_prop:
  "get (delete_prop (JObj kvs) k) k' = (if k' = k then JUndef else get (JObj kvs) k')"
  by (simp add: delete_prop_def lookup_filter)

lemma own_keys_delete_prop:
  "set (own_keys (delete_prop (JObj kvs) k)) \<subseteq> set (own_keys (JObj kvs))"
  by (auto simp: delete_prop_def)

lemma for_each_fails_at:
  "x \<in> set xs \<Longrightarrow> body x = Inl e \<Longrightarrow> (\<forall>y\<in>set xs. y \<noteq> x \<longrightarrow> body y = Inr ()) \<Longrightarrow>
   for_each xs body = Inl e"
  by (induction xs) (auto split: sum.splits)

lemma fold_set_add: "set (fold (\<lambda>d a. set_add a d) ds acc) = set acc \<union> set ds"
  by (induction ds arbitrary: acc) (auto simp: set_add_def)

lemma collect_destinations_set:
  "collect_destinations routes sources acc = Inr ds \<Longrightarrow>
   set ds = set acc \<union> (\<Union>s\<in>set sources. set (own_keys (get routes s)))"
  by (induction sources arbitrary: acc)
     (auto simp: ebind_eq_Inr object_keys_eq_Inr fold_set_add)

section \<open>The fee matrix\<close>

lemma validateKeys_subset: "set keys \<subseteq> set validKeys \<Longrightarrow> validateKeys validKeys keys = Inr ()"
  by (simp add: validateKeys_eq_Inr)

lemma for_each_all_ok: "(\<forall>x\<in>set xs. body x = Inr ()) \<Longrightarrow> for_each xs body = Inr ()"
  by (simp add: for_each_eq_Inr)

lemma check_fees_Inr_D:
  assumes ok: "check_fees eC eT config = Inr ()" and fees: "truthy (get config ''fees'')"
  obtains ds where
    "collect_destinations (get config ''routes'') (own_keys (get config ''routes'')) [] = Inr ds"
    "set ds = (\<Union>s\<in>set (own_keys (get config ''routes'')). set (own_keys (get (get config ''routes'') s)))"
    "set (own_keys (get config ''fees'')) \<subseteq> set eT"
    "\<forall>t\<in>set (own_keys (get config ''fees'')).
        \<not> nullish (get (get config ''fees'') t) \<and>
        set (own_keys (get (get config ''fees'') t)) \<subseteq> set eC \<and>
        (\<forall>d\<in>set ds. truthy (get (get (get config ''fees'') t) d))"
    "\<forall>t\<in>set eT. truthy (get (get config ''fees'') t)"
proof -
  from ok fees obtain ds where
    ds: "collect_destinations (get config ''routes'') (own_keys (get config ''routes'')) [] = Inr ds"
    and rest: "set (own_keys (get config ''fees'')) \<subseteq> set eT"
      "\<forall>t\<in>set (own_keys (get config ''fees'')).
        \<not> nullish (get (get config ''fees'') t) \<and>
        set (own_keys (get (get config ''fees'') t)) \<subseteq> set eC \<and>
        (\<forall>d\<in>set ds. truthy (get (get (get config ''fees'') t) d))"
      "\<forall>t\<in>set eT. truthy (get (get config ''fees'') t)"
    by (auto simp: check_fees_def ebind_eq_Inr object_keys_eq_Inr validateKeys_eq_Inr
          for_each_eq_Inr forin_keys_def split: if_splits)
  from collect_destinations_set [OF ds]
  have "set ds = (\<Union>s\<in>set (own_keys (get config ''routes'')). set (own_keys (get (get config ''routes'') s)))"
    by simp
  with ds rest show thesis using that by blast
qed

lemma check_fees_entry_missing:
  assumes ok: "check_fees eC eT config = Inr ()" and fees: "truthy (get config ''fees'')"
    and routes': "get config' ''routes'' = get config ''routes''"
    and fees': "truthy (get config' ''fees'')"
    and keys': "own_keys (get config' ''fees'') = own_keys (get config ''fees'')"
    and others: "\<forall>t. t \<noteq> token \<longrightarrow> get (get config' ''fees'') t = get (get config ''fees'') t"
    and entry: "\<not> nullish (get (get config' ''fees'') token)"
    and entry_keys: "set (own_keys (get (get config' ''fees'') token))
                       \<subseteq> set (own_keys (get (get config ''fees'') token))"
    and entry_others: "\<forall>d. d \<noteq> chain \<longrightarrow>
           get (get (get config' ''fees'') token) d = get (get (get config ''fees'') token) d"
    and missing: "\<not> truthy (get (get (get config' ''fees'') token) chain)"
    and token: "token \<in> set (own_keys (get config ''fees''))"
    and source: "source \<in> set (own_keys (get config ''routes''))"
    and chain: "chain \<in> set (own_keys (get (get config ''routes'') source))"
  shows "check_fees eC eT config' = Inl (MissingFeeForChain chain token)"
proof -
  from ok fees obtain ds where
    ds: "collect_destinations (get config ''routes'') (own_keys (get config ''routes'')) [] = Inr ds"
    and ds_set: "set ds = (\<Union>s\<in>set (own_keys (get config ''routes'')). set (own_keys (get (get config ''routes'') s)))"
    and sub: "set (own_keys (get config ''fees'')) \<subseteq> set eT"
    and per: "\<forall>t\<in>set (own_keys (get config ''fees'')).
        \<not> nullish (get (get config ''fees'') t) \<and>
        set (own_keys (get (get config ''fees'') t)) \<subseteq> set eC \<and>
        (\<forall>d\<in>set ds. truthy (get (get (get config ''fees'') t) d))"
    by (rule check_fees_Inr_D)
  from source chain ds_set have chain_in: "chain \<in> set ds" by auto
  let ?inner = "\<lambda>t chain. if \<not> truthy (get_opt (get (get config' ''fees'') t) chain)
                   then Inl (MissingFeeForChain chain t) else Inr ()"
  let ?body = "\<lambda>t. ebind (object_keys (get (get config' ''fees'') t)) (\<lambda>chains.
                 ebind (validateKeys eC chains) (\<lambda>_. for_each ds (?inner t)))"
  have inner: "for_each ds (?inner token) = Inl (MissingFeeForChain chain token)"
  proof (rule for_each_fails_at [OF chain_in])
    show "?inner token chain = Inl (MissingFeeForChain chain token)"
      using missing by simp
    show "\<forall>y\<in>set ds. y \<noteq> chain \<longrightarrow> ?inner token y = Inr ()"
      using per token entry_others by simp
  qed
  have at_token: "?body token = Inl (MissingFeeForChain chain token)"
  proof -
    from per token entry_keys
    have "set (own_keys (get (get config' ''fees'') token)) \<subseteq> set eC" by blast
    then have "validateKeys eC (own_keys (get (get config' ''fees'') token)) = Inr ()"
      by (simp add: validateKeys_eq_Inr)
    with entry inner show ?thesis
      by (simp add: object_keys_def)
  qed
  have elsewhere: "\<forall>t\<in>set (own_keys (get config ''fees'')). t \<noteq> token \<longrightarrow> ?body t = Inr ()"
  proof (intro ballI impI)
    fix t assume t: "t \<in> set (own_keys (get config ''fees''))" and ne: "t \<noteq> token"
    from others ne have same: "get (get config' ''fees'') t = get (get config ''fees'') t" by simp
    from per t have "\<not> nullish (get (get config ''fees'') t)"
      "set (own_keys (get (get config ''fees'') t)) \<subseteq> set eC"
      "\<forall>d\<in>set ds. truthy (get (get (get config ''fees'') t) d)" by auto
    then show "?body t = Inr ()"
      by (simp add: same object_keys_def validateKeys_subset for_each_all_ok)
  qed
  have loop: "for_each (own_keys (get config ''fees'')) ?body = Inl (MissingFeeForChain chain token)"
    using token at_token elsewhere by (rule for_each_fails_at)
  from sub have "validateKeys eT (own_keys (get config ''fees'')) = Inr ()"
    by (simp add: validateKeys_eq_Inr)
  with fees' keys' routes' ds loop show ?thesis
    by (simp add: check_fees_def object_keys_def forin_keys_def truthy_not_nullish)
qed

lemma check_chains_cong:
  "get c' ''chains'' = get c ''chains'' \<Longrightarrow> check_chains K c' = check_chains K c"
  by (simp add: check_chains_def cong del: if_weak_cong)

lemma check_tokens_cong:
  "get c' ''tokens'' = get c ''tokens'' \<Longrightarrow> check_tokens c' = check_tokens c"
  by (simp add: check_tokens_def cong del: if_weak_cong)

lemma check_watchers_cong:
  "get c' ''watchers'' = get c ''watchers'' \<Longrightarrow> check_watchers K c' = check_watchers K c"
  by (simp add: check_watchers_def cong del: if_weak_cong)

lemma check_sections_cong:
  "get c' ''keystore'' = get c ''keystore'' \<Longrightarrow> get c' ''signer'' = get c ''signer'' \<Longrightarrow>
   get c' ''db'' = get c ''db'' \<Longrightarrow> get c' ''logging'' = get c ''logging'' \<Longrightarrow>
   get c' ''metrics'' = get c ''metrics'' \<Longrightarrow> get c' ''addresses'' = get c ''addresses'' \<Longrightarrow>
   check_sections c' = check_sections c"
  by (simp add: check_sections_def check_logging_def cong del: if_weak_cong)

lemma check_routes_cong:
  "get c' ''routes'' = get c ''routes'' \<Longrightarrow> check_routes eC c' = check_routes eC c"
  by (simp add: check_routes_def cong del: if_weak_cong)

lemma check_fees_cong:
  "get c' ''routes'' = get c ''routes'' \<Longrightarrow> get c' ''fees'' = get c ''fees'' \<Longrightarrow>
   check_fees eC eT c' = check_fees eC eT c"
  by (simp add: check_fees_def cong del: if_weak_cong)

lemma enabledChains_cong:
  "get c' ''chains'' = get c ''chains'' \<Longrightarrow> enabledChains c' = enabledChains c"
  by (simp add: enabledChains_def cong del: if_weak_cong)

lemma enabledTokens_cong:
  "get c' ''tokens'' = get c ''tokens'' \<Longrightarrow> enabledTokens c' = enabledTokens c"
  by (simp add: enabledTokens_def cong del: if_weak_cong)

lemma has_path_Cons_D:
  assumes "has_path (k # path) v"
  obtains kvs where "v = JObj kvs" "k \<in> set (map fst kvs)" "has_path path (get v k)"
  using assms by (cases v) auto

text \<open>A write to a section that is there leaves the checks of lines 25 to 181 as they were.\<close>

lemma validate_prefix_frame:
  assumes valid: "validateConfigFileStructure K (JObj cs) = Inr ()"
    and k: "k \<in> set (map fst cs)" and sect: "k = ''fees'' \<or> k = ''commitTransfers''"
  shows "truthy (set_prop (JObj cs) k x)" "instanceof_Object (set_prop (JObj cs) k x)"
    "validateKeys validSectionKeys (own_keys (set_prop (JObj cs) k x)) = Inr ()"
    "enabledChains (set_prop (JObj cs) k x) = enabledChains (JObj cs)"
    "enabledTokens (set_prop (JObj cs) k x) = enabledTokens (JObj cs)"
    "check_chains K (set_prop (JObj cs) k x) = Inr (enabledChains (JObj cs))"
    "check_tokens (set_prop (JObj cs) k x) = Inr (enabledTokens (JObj cs))"
    "check_watchers K (set_prop (JObj cs) k x) = Inr ()"
    "check_sections (set_prop (JObj cs) k x) = Inr ()"
    "check_routes (enabledChains (JObj cs)) (set_prop (JObj cs) k x) = Inr ()"
proof -
  let ?c = "JObj cs" and ?c' = "set_prop (JObj cs) k x"
  have same: "get ?c' n = get ?c n" if "n \<noteq> ''fees''" "n \<noteq> ''commitTransfers''" for n
    using that sect by (auto simp: get_set_prop)
  from set_prop_is_object [of cs k x] show "truthy ?c'" "instanceof_Object ?c'"
    by auto
  from valid k show "validateKeys validSectionKeys (own_keys ?c') = Inr ()"
    by (simp only: own_keys_set_prop validate_eq_Inr)
  show "enabledChains ?c' = enabledChains ?c"
    by (rule enabledChains_cong) (simp add: same)
  show "enabledTokens ?c' = enabledTokens ?c"
    by (rule enabledTokens_cong) (simp add: same)
  have "check_chains K ?c' = check_chains K ?c"
    by (rule check_chains_cong) (simp add: same)
  with valid show "check_chains K ?c' = Inr (enabledChains ?c)"
    by (simp add: validate_eq_Inr)
  have "check_tokens ?c' = check_tokens ?c"
    by (rule check_tokens_cong) (simp add: same)
  with valid show "check_tokens ?c' = Inr (enabledTokens ?c)"
    by (simp add: validate_eq_Inr)
  have "check_watchers K ?c' = check_watchers K ?c"
    by (rule check_watchers_cong) (simp add: same)
  with valid show "check_watchers K ?c' = Inr ()"
    by (simp add: validate_eq_Inr)
  have "check_sections ?c' = check_sections ?c"
    by (rule check_sections_cong) (simp_all add: same)
  with valid show "check_sections ?c' = Inr ()"
    by (simp add: validate_eq_Inr)
  have "check_routes (enabledChains ?c) ?c' = check_routes (enabledChains ?c) ?c"
    by (rule check_routes_cong) (simp add: same)
  with valid show "check_routes (enabledChains ?c) ?c' = Inr ()"
    by (simp add: validate_eq_Inr)
qed

lemma validate_fails_in_fees:
  assumes valid: "validateConfigFileStructure K (JObj cs) = Inr ()"
    and k: "''fees'' \<in> set (map fst cs)"
    and fail: "check_fees (enabledChains (JObj cs)) (enabledTokens (JObj cs))
                 (set_prop (JObj cs) ''fees'' x) = Inl e"
  shows "validateConfigFileStructure K (set_prop (JObj cs) ''fees'' x) = Inl e"
  using validate_prefix_frame [OF valid k, of x] fail
  by (simp add: validateConfigFileStructure_def object_keys_def truthy_not_nullish)

lemma validate_fee_entry_replaced:
  assumes valid: "validateConfigFileStructure K (JObj cs) = Inr ()"
    and fees_key: "''fees'' \<in> set (map fst cs)"
    and fees: "get (JObj cs) ''fees'' = JObj fs"
    and token: "token \<in> set (map fst fs)"
    and entry: "\<not> nullish entry'"
    and entry_keys: "set (own_keys entry') \<subseteq> set (own_keys (get (JObj fs) token))"
    and entry_others: "\<forall>d. d \<noteq> chain \<longrightarrow> get entry' d = get (get (JObj fs) token) d"
    and missing: "\<not> truthy (get entry' chain)"
    and source: "source \<in> set (own_keys (get (JObj cs) ''routes''))"
    and chain: "chain \<in> set (own_keys (get (get (JObj cs) ''routes'') source))"
  shows "validateConfigFileStructure K
           (set_prop (JObj cs) ''fees'' (set_prop (JObj fs) token entry'))
         = Inl (MissingFeeForChain chain token)"
proof (rule validate_fails_in_fees [OF valid fees_key])
  let ?c = "JObj cs" and ?x = "set_prop (JObj fs) token entry'"
  let ?c' = "set_prop ?c ''fees'' ?x"
  from valid have ok: "check_fees (enabledChains ?c) (enabledTokens ?c) ?c = Inr ()"
    by (simp add: validate_eq_Inr)
  from fees have fees_l: "lookup cs ''fees'' = JObj fs" by simp
  have fees_c': "get ?c' ''fees'' = ?x" and routes_c': "get ?c' ''routes'' = get ?c ''routes''"
    by (simp_all add: get_set_prop)
  show "check_fees (enabledChains ?c) (enabledTokens ?c) ?c' = Inl (MissingFeeForChain chain token)"
  proof (rule check_fees_entry_missing [OF ok _ routes_c' _ _ _ _ _ _ _ _ source chain])
    show "truthy (get ?c ''fees'')" by (simp add: fees_l)
    show "truthy (get ?c' ''fees'')"
      using set_prop_is_object [of fs token entry'] by (auto simp: fees_c')
    show "own_keys (get ?c' ''fees'') = own_keys (get ?c ''fees'')"
      using token by (simp add: fees_c' fees_l own_keys_set_prop)
    show "\<forall>t. t \<noteq> token \<longrightarrow> get (get ?c' ''fees'') t = get (get ?c ''fees'') t"
      by (simp add: fees_c' fees_l get_set_prop)
    show "\<not> nullish (get (get ?c' ''fees'') token)"
      using entry by (simp add: fees_c' get_set_prop)
    show "set (own_keys (get (get ?c' ''fees'') token))
            \<subseteq> set (own_keys (get (get ?c ''fees'') token))"
      using entry_keys by (simp add: fees_c' fees_l get_set_prop)
    show "\<forall>d. d \<noteq> chain \<longrightarrow>
            get (get (get ?c' ''fees'') token) d = get (get (get ?c ''fees'') token) d"
      using entry_others by (simp add: fees_c' fees_l get_set_prop)
    show "\<not> truthy (get (get (get ?c' ''fees'') token) chain)"
      using missing by (simp add: fees_c' get_set_prop)
    show "token \<in> set (own_keys (get ?c ''fees''))"
      using token by (simp add: fees_l)
  qed
qed

text \<open>
  C1: where the \<^verbatim>\<open>fees\<close> section is there, an accepted configuration has a fee entry for
  every enabled token and, for every token of \<^verbatim>\<open>fees\<close> and every destination chain of a
  route, an entry \<^verbatim>\<open>fees[token][chain]\<close>. Deleting one such entry from an accepted
  configuration makes the pass fail with the error of line 198, which names the chain and
  the token.
\<close>

theorem fee_entries_required:
  assumes valid: "validateConfigFileStructure K config = Inr ()"
    and fees: "truthy (get config ''fees'')"
  shows "(\<forall>token\<in>set (enabledTokens config). truthy (get (get config ''fees'') token)) \<and>
         (\<forall>token\<in>set (own_keys (get config ''fees'')).
            \<forall>sourceChain\<in>set (own_keys (get config ''routes'')).
              \<forall>chain\<in>set (own_keys (get (get config ''routes'') sourceChain)).
                truthy (get (get (get config ''fees'') token) chain)) \<and>
         (\<forall>token sourceChain chain.
            sourceChain \<in> set (own_keys (get config ''routes'')) \<and>
            chain \<in> set (own_keys (get (get config ''routes'') sourceChain)) \<and>
            has_path [''fees'', token, chain] config
            \<longrightarrow> validateConfigFileStructure K (delete_path [''fees'', token, chain] config)
                  = Inl (MissingFeeForChain chain token))"
proof (intro conjI allI impI)
  from valid have ok: "check_fees (enabledChains config) (enabledTokens config) config = Inr ()"
    by (simp add: validate_eq_Inr)
  from ok fees obtain ds where
    ds: "set ds = (\<Union>s\<in>set (own_keys (get config ''routes'')).
                     set (own_keys (get (get config ''routes'') s)))"
    and per: "\<forall>t\<in>set (own_keys (get config ''fees'')).
        \<not> nullish (get (get config ''fees'') t) \<and>
        set (own_keys (get (get config ''fees'') t)) \<subseteq> set (enabledChains config) \<and>
        (\<forall>d\<in>set ds. truthy (get (get (get config ''fees'') t) d))"
    and all: "\<forall>t\<in>set (enabledTokens config). truthy (get (get config ''fees'') t)"
    by (rule check_fees_Inr_D)
  from all show "\<forall>token\<in>set (enabledTokens config). truthy (get (get config ''fees'') token)" .
  from per ds show "\<forall>token\<in>set (own_keys (get config ''fees'')).
            \<forall>sourceChain\<in>set (own_keys (get config ''routes'')).
              \<forall>chain\<in>set (own_keys (get (get config ''routes'') sourceChain)).
                truthy (get (get (get config ''fees'') token) chain)"
    by auto
next
  fix token sourceChain chain
  assume h: "sourceChain \<in> set (own_keys (get config ''routes'')) \<and>
            chain \<in> set (own_keys (get (get config ''routes'') sourceChain)) \<and>
            has_path [''fees'', token, chain] config"
  then have path: "has_path [''fees'', token, chain] config" by simp
  from path obtain cs where cs: "config = JObj cs" "''fees'' \<in> set (map fst cs)"
    and path1: "has_path [token, chain] (get config ''fees'')"
    by (rule has_path_Cons_D)
  from path1 obtain fs where fs: "get config ''fees'' = JObj fs" "token \<in> set (map fst fs)"
    and path2: "has_path [chain] (get (get config ''fees'') token)"
    by (rule has_path_Cons_D)
  from path2 obtain es where es: "get (get config ''fees'') token = JObj es"
    by (rule has_path_Cons_D)
  have del: "delete_path [''fees'', token, chain] config
               = set_prop (JObj cs) ''fees'' (set_prop (JObj fs) token (delete_prop (JObj es) chain))"
    using cs fs es by simp
  have "validateConfigFileStructure K
           (set_prop (JObj cs) ''fees'' (set_prop (JObj fs) token (delete_prop (JObj es) chain)))
         = Inl (MissingFeeForChain chain token)"
  proof (rule validate_fee_entry_replaced [where source = sourceChain])
    show "validateConfigFileStructure K (JObj cs) = Inr ()" using valid cs by simp
    show "''fees'' \<in> set (map fst cs)" by (rule cs)
    show "get (JObj cs) ''fees'' = JObj fs" using fs cs by simp
    show "token \<in> set (map fst fs)" by (rule fs)
    show "\<not> nullish (delete_prop (JObj es) chain)" by (simp add: delete_prop_def)
    show "set (own_keys (delete_prop (JObj es) chain)) \<subseteq> set (own_keys (get (JObj fs) token))"
      using es fs own_keys_delete_prop [of es chain] by simp
    show "\<forall>d. d \<noteq> chain \<longrightarrow> get (delete_prop (JObj es) chain) d = get (get (JObj fs) token) d"
      using es fs by (simp add: get_delete_prop)
    show "\<not> truthy (get (delete_prop (JObj es) chain) chain)"
      by (simp add: get_delete_prop)
    show "sourceChain \<in> set (own_keys (get (JObj cs) ''routes''))" using h cs by simp
    show "chain \<in> set (own_keys (get (get (JObj cs) ''routes'') sourceChain))" using h cs by simp
  qed
  with del show "validateConfigFileStructure K (delete_path [''fees'', token, chain] config)
                  = Inl (MissingFeeForChain chain token)"
    by simp
qed

theorem fee_entries_required_witness:
  "validateConfigFileStructure hop_constants scenario_config = Inr () \<and>
   truthy (get scenario_config ''fees'') \<and>
   ''USDC'' \<in> set (enabledTokens scenario_config) \<and>
   truthy (get (get scenario_config ''fees'') ''USDC'') \<and>
   ''ethereum'' \<in> set (own_keys (get scenario_config ''routes'')) \<and>
   ''optimism'' \<in> set (own_keys (get (get scenario_config ''routes'') ''ethereum'')) \<and>
   has_path [''fees'', ''USDC'', ''optimism''] scenario_config \<and>
   truthy (get (get (get scenario_config ''fees'') ''USDC'') ''optimism'') \<and>
   validateConfigFileStructure hop_constants
     (delete_path [''fees'', ''USDC'', ''optimism''] scenario_config)
     = Inl (MissingFeeForChain ''optimism'' ''USDC'')"
proof -
  have valid: "validateConfigFileStructure hop_constants scenario_config = Inr ()"
    by (simp add: scenario_config_def structure_defs)
  have fees: "truthy (get scenario_config ''fees'')"
    by (simp add: scenario_config_def)
  have facts: "''USDC'' \<in> set (enabledTokens scenario_config)"
    "''USDC'' \<in> set (own_keys (get scenario_config ''fees''))"
    "''ethereum'' \<in> set (own_keys (get scenario_config ''routes''))"
    "''optimism'' \<in> set (own_keys (get (get scenario_config ''routes'') ''ethereum''))"
    "has_path [''fees'', ''USDC'', ''optimism''] scenario_config"
    by (simp_all add: scenario_config_def enabledTokens_def)
  from fee_entries_required [OF valid fees] facts valid fees show ?thesis
    by blast
qed

section \<open>The threshold matrix\<close>

lemma check_commitTransfers_eq_Inr:
  assumes ct: "truthy (get config ''commitTransfers'')"
    and nonempty: "own_keys (get (get config ''commitTransfers'') ''minThresholdAmount'') \<noteq> []"
  shows "check_commitTransfers K eC eT config = Inr () \<longleftrightarrow>
     set (own_keys (get config ''commitTransfers'')) \<subseteq> {''minThresholdAmount''} \<and>
     set (own_keys (get (get config ''commitTransfers'') ''minThresholdAmount'')) \<subseteq> set eT \<and>
     (\<forall>token\<in>set eT.
        truthy (get (get (get config ''commitTransfers'') ''minThresholdAmount'') token) \<and>
        set (own_keys (get (get (get config ''commitTransfers'') ''minThresholdAmount'') token))
          \<subseteq> set eC \<and>
        (\<forall>sourceChain\<in>set (own_keys (get config ''routes'')).
           sourceChain \<noteq> Chain_Ethereum K \<longrightarrow>
             truthy (get (get (get (get config ''commitTransfers'') ''minThresholdAmount'') token)
                       sourceChain))) \<and>
     thresholds_present K eT config"
proof -
  from nonempty have nn: "\<not> nullish (get (get config ''commitTransfers'') ''minThresholdAmount'')"
    by (cases "get (get config ''commitTransfers'') ''minThresholdAmount''") auto
  show ?thesis
    using ct nonempty nn
    apply (simp add: check_commitTransfers_def thresholds_present_def Let_def ebind_eq_Inr
        object_keys_eq_Inr validateKeys_eq_Inr for_each_eq_Inr forin_keys_def truthy_not_nullish)
    apply (auto simp: ebind_eq_Inr object_keys_eq_Inr validateKeys_eq_Inr for_each_eq_Inr
        truthy_not_nullish split: if_splits)
    apply blast
    done
qed

text \<open>
  C2: where \<^verbatim>\<open>commitTransfers.minThresholdAmount\<close> has a key, an accepted configuration
  has an entry \<^verbatim>\<open>minThresholdAmount[token][sourceChain][destinationChain]\<close> for every
  enabled token and every declared route whose source chain is not \<^verbatim>\<open>Chain.Ethereum\<close>,
  and a configuration that lacks one fails. The routes whose source is the base chain are
  exempt: the check of the section passes exactly under conditions none of which is about
  such a route.
\<close>

theorem threshold_entries_required:
  assumes ct: "truthy (get config ''commitTransfers'')"
    and nonempty: "own_keys (get (get config ''commitTransfers'') ''minThresholdAmount'') \<noteq> []"
  shows "(validateConfigFileStructure K config = Inr ()
            \<longrightarrow> thresholds_present K (enabledTokens config) config) \<and>
         (\<not> thresholds_present K (enabledTokens config) config
            \<longrightarrow> (\<exists>e. validateConfigFileStructure K config = Inl e)) \<and>
         (check_commitTransfers K eC eT config = Inr () \<longleftrightarrow>
            set (own_keys (get config ''commitTransfers'')) \<subseteq> {''minThresholdAmount''} \<and>
            set (own_keys (get (get config ''commitTransfers'') ''minThresholdAmount''))
              \<subseteq> set eT \<and>
            (\<forall>token\<in>set eT.
               truthy (get (get (get config ''commitTransfers'') ''minThresholdAmount'') token) \<and>
               set (own_keys
                     (get (get (get config ''commitTransfers'') ''minThresholdAmount'') token))
                 \<subseteq> set eC \<and>
               (\<forall>sourceChain\<in>set (own_keys (get config ''routes'')).
                  sourceChain \<noteq> Chain_Ethereum K \<longrightarrow>
                    truthy (get (get (get (get config ''commitTransfers'')
                                         ''minThresholdAmount'') token) sourceChain))) \<and>
            thresholds_present K eT config)"
proof -
  have need: "thresholds_present K (enabledTokens config) config"
    if "validateConfigFileStructure K config = Inr ()"
  proof -
    from that have "check_commitTransfers K (enabledChains config) (enabledTokens config) config
                      = Inr ()"
      by (simp add: validate_eq_Inr)
    then show ?thesis
      by (simp add: check_commitTransfers_eq_Inr [OF ct nonempty])
  qed
  then have "\<exists>e. validateConfigFileStructure K config = Inl e"
    if "\<not> thresholds_present K (enabledTokens config) config"
    using that by (auto simp: not_Inr_unit [symmetric])
  with need check_commitTransfers_eq_Inr [OF ct nonempty, of K eC eT] show ?thesis
    by blast
qed

lemmas surgery_defs = set_prop_def delete_prop_def

theorem threshold_entries_required_witness:
  "truthy (get scenario_config ''commitTransfers'') \<and>
   own_keys (get (get scenario_config ''commitTransfers'') ''minThresholdAmount'') \<noteq> [] \<and>
   validateConfigFileStructure hop_constants scenario_config = Inr () \<and>
   thresholds_present hop_constants (enabledTokens scenario_config) scenario_config \<and>
   ''optimism'' \<in> set (own_keys (get (get scenario_config ''routes'') ''ethereum'')) \<and>
   get (get (get (get scenario_config ''commitTransfers'') ''minThresholdAmount'') ''USDC'')
     ''ethereum'' = JUndef \<and>
   validateConfigFileStructure hop_constants
     (delete_path [''commitTransfers'', ''minThresholdAmount'', ''USDC'', ''optimism'', ''ethereum'']
        scenario_config)
     = Inl (MissingThresholdDestination ''USDC'' ''optimism'' ''ethereum'')"
proof -
  have ct: "truthy (get scenario_config ''commitTransfers'')"
    and nonempty:
      "own_keys (get (get scenario_config ''commitTransfers'') ''minThresholdAmount'') \<noteq> []"
    by (simp_all add: scenario_config_def)
  have valid: "validateConfigFileStructure hop_constants scenario_config = Inr ()"
    by (simp add: scenario_config_def structure_defs)
  have exempt: "''optimism'' \<in> set (own_keys (get (get scenario_config ''routes'') ''ethereum''))"
    "get (get (get (get scenario_config ''commitTransfers'') ''minThresholdAmount'') ''USDC'')
       ''ethereum'' = JUndef"
    by (simp_all add: scenario_config_def)
  have removed: "validateConfigFileStructure hop_constants
     (delete_path [''commitTransfers'', ''minThresholdAmount'', ''USDC'', ''optimism'', ''ethereum'']
        scenario_config)
     = Inl (MissingThresholdDestination ''USDC'' ''optimism'' ''ethereum'')"
    by (simp add: scenario_config_def surgery_defs structure_defs)
  from threshold_entries_required [OF ct nonempty, of hop_constants] valid
  have "thresholds_present hop_constants (enabledTokens scenario_config) scenario_config"
    by blast
  with ct nonempty valid exempt removed show ?thesis
    by simp
qed

section \<open>Falsy entries\<close>

lemma validate_fails_in_commitTransfers:
  assumes valid: "validateConfigFileStructure K (JObj cs) = Inr ()"
    and k: "''commitTransfers'' \<in> set (map fst cs)"
    and fail: "check_commitTransfers K (enabledChains (JObj cs)) (enabledTokens (JObj cs))
                 (set_prop (JObj cs) ''commitTransfers'' x) = Inl e"
  shows "validateConfigFileStructure K (set_prop (JObj cs) ''commitTransfers'' x) = Inl e"
proof -
  let ?c = "JObj cs" and ?c' = "set_prop (JObj cs) ''commitTransfers'' x"
  have "check_fees (enabledChains ?c) (enabledTokens ?c) ?c'
          = check_fees (enabledChains ?c) (enabledTokens ?c) ?c"
    by (rule check_fees_cong) (simp_all add: get_set_prop)
  with valid have "check_fees (enabledChains ?c) (enabledTokens ?c) ?c' = Inr ()"
    by (simp add: validate_eq_Inr)
  with validate_prefix_frame [OF valid k, of x] fail show ?thesis
    by (simp add: validateConfigFileStructure_def object_keys_def truthy_not_nullish)
qed

lemma check_commitTransfers_entry_missing:
  assumes ok: "check_commitTransfers K eC eT config = Inr ()"
    and ct: "truthy (get config ''commitTransfers'')"
    and nonempty: "own_keys (get (get config ''commitTransfers'') ''minThresholdAmount'') \<noteq> []"
    and routes': "get config' ''routes'' = get config ''routes''"
    and ct': "truthy (get config' ''commitTransfers'')"
    and ct_keys: "own_keys (get config' ''commitTransfers'') = own_keys (get config ''commitTransfers'')"
    and m_keys: "own_keys (get (get config' ''commitTransfers'') ''minThresholdAmount'')
                   = own_keys (get (get config ''commitTransfers'') ''minThresholdAmount'')"
    and m_others: "\<forall>t. t \<noteq> token \<longrightarrow>
        get (get (get config' ''commitTransfers'') ''minThresholdAmount'') t
          = get (get (get config ''commitTransfers'') ''minThresholdAmount'') t"
    and t_truthy: "truthy (get (get (get config' ''commitTransfers'') ''minThresholdAmount'') token)"
    and t_keys: "set (own_keys (get (get (get config' ''commitTransfers'') ''minThresholdAmount'') token))
        \<subseteq> set (own_keys (get (get (get config ''commitTransfers'') ''minThresholdAmount'') token))"
    and t_others: "\<forall>s. s \<noteq> source \<longrightarrow>
        get (get (get (get config' ''commitTransfers'') ''minThresholdAmount'') token) s
          = get (get (get (get config ''commitTransfers'') ''minThresholdAmount'') token) s"
    and s_truthy: "truthy (get (get (get (get config' ''commitTransfers'') ''minThresholdAmount'') token) source)"
    and s_others: "\<forall>d. d \<noteq> chain \<longrightarrow>
        get (get (get (get (get config' ''commitTransfers'') ''minThresholdAmount'') token) source) d
          = get (get (get (get (get config ''commitTransfers'') ''minThresholdAmount'') token) source) d"
    and missing: "\<not> truthy (get (get (get (get (get config' ''commitTransfers'')
                      ''minThresholdAmount'') token) source) chain)"
    and token: "token \<in> set eT"
    and source: "source \<in> set (own_keys (get config ''routes''))" "source \<noteq> Chain_Ethereum K"
    and chain: "chain \<in> set (own_keys (get (get config ''routes'') source))"
  shows "check_commitTransfers K eC eT config'
           = Inl (MissingThresholdDestination token source chain)"
proof -
  let ?m = "get (get config ''commitTransfers'') ''minThresholdAmount''"
  let ?m' = "get (get config' ''commitTransfers'') ''minThresholdAmount''"
  let ?routes = "get config ''routes''"
  from ok have cond:
    "set (own_keys (get config ''commitTransfers'')) \<subseteq> {''minThresholdAmount''}"
    "set (own_keys ?m) \<subseteq> set eT"
    "\<forall>t\<in>set eT. truthy (get ?m t) \<and> set (own_keys (get ?m t)) \<subseteq> set eC \<and>
        (\<forall>s\<in>set (own_keys ?routes). s \<noteq> Chain_Ethereum K \<longrightarrow> truthy (get (get ?m t) s))"
    "thresholds_present K eT config"
    by (simp_all add: check_commitTransfers_eq_Inr [OF ct nonempty])
  from cond(4) have present: "\<forall>t\<in>set eT. \<forall>s\<in>set (own_keys ?routes). s \<noteq> Chain_Ethereum K \<longrightarrow>
      (\<forall>d\<in>set (own_keys (get ?routes s)). truthy (get (get (get ?m t) s) d))"
    by (simp add: thresholds_present_def Let_def)
  let ?dest = "\<lambda>t s d. if \<not> truthy (get (get (get ?m' t) s) d)
                 then Inl (MissingThresholdDestination t s d) else Inr ()"
  let ?src = "\<lambda>t s. if s = Chain_Ethereum K then Inr ()
                 else if \<not> truthy (get (get ?m' t) s) then Inl (MissingThresholdSource t s)
                 else for_each (forin_keys (get ?routes s)) (?dest t s)"
  let ?tok = "\<lambda>t. if \<not> truthy (get ?m' t) then Inl (MissingThresholdToken t)
                 else ebind (object_keys (get ?m' t)) (\<lambda>chains.
                      ebind (validateKeys eC chains) (\<lambda>_.
                      for_each (forin_keys ?routes) (?src t)))"
  have dests: "for_each (forin_keys (get ?routes source)) (?dest token source)
                 = Inl (MissingThresholdDestination token source chain)"
  proof (rule for_each_fails_at)
    show "chain \<in> set (forin_keys (get ?routes source))"
      using chain by (simp add: forin_keys_def)
    show "?dest token source chain = Inl (MissingThresholdDestination token source chain)"
      using missing by simp
    show "\<forall>y\<in>set (forin_keys (get ?routes source)). y \<noteq> chain \<longrightarrow> ?dest token source y = Inr ()"
      using present token source s_others by (simp add: forin_keys_def)
  qed
  have srcs: "for_each (forin_keys ?routes) (?src token)
                = Inl (MissingThresholdDestination token source chain)"
  proof (rule for_each_fails_at)
    show "source \<in> set (forin_keys ?routes)"
      using source by (simp add: forin_keys_def)
    show "?src token source = Inl (MissingThresholdDestination token source chain)"
      using source s_truthy dests by simp
    show "\<forall>y\<in>set (forin_keys ?routes). y \<noteq> source \<longrightarrow> ?src token y = Inr ()"
    proof (intro ballI impI)
      fix y assume y: "y \<in> set (forin_keys ?routes)" and ne: "y \<noteq> source"
      from t_others ne have same: "get (get ?m' token) y = get (get ?m token) y" by simp
      from y have y_in: "y \<in> set (own_keys ?routes)" by (simp add: forin_keys_def)
      show "?src token y = Inr ()"
      proof (cases "y = Chain_Ethereum K")
        case True then show ?thesis by simp
      next
        case False
        with cond(3) present token y_in have "truthy (get (get ?m token) y)"
          "\<forall>d\<in>set (own_keys (get ?routes y)). truthy (get (get (get ?m token) y) d)"
          by auto
        with False show ?thesis
          by (simp add: same for_each_all_ok forin_keys_def)
      qed
    qed
  qed
  have toks: "for_each eT ?tok = Inl (MissingThresholdDestination token source chain)"
  proof (rule for_each_fails_at [OF token])
    from cond(3) token t_keys
    have "set (own_keys (get ?m' token)) \<subseteq> set eC" by blast
    then have "validateKeys eC (own_keys (get ?m' token)) = Inr ()"
      by (rule validateKeys_subset)
    with t_truthy srcs show "?tok token = Inl (MissingThresholdDestination token source chain)"
      by (simp add: object_keys_def truthy_not_nullish)
    show "\<forall>y\<in>set eT. y \<noteq> token \<longrightarrow> ?tok y = Inr ()"
    proof (intro ballI impI)
      fix y assume y: "y \<in> set eT" and ne: "y \<noteq> token"
      from m_others ne have same: "get ?m' y = get ?m y" by simp
      from cond(3) y have a: "truthy (get ?m y)" "set (own_keys (get ?m y)) \<subseteq> set eC"
        "\<forall>s\<in>set (own_keys ?routes). s \<noteq> Chain_Ethereum K \<longrightarrow> truthy (get (get ?m y) s)"
        by auto
      from present y have b: "\<forall>s\<in>set (own_keys ?routes). s \<noteq> Chain_Ethereum K \<longrightarrow>
          (\<forall>d\<in>set (own_keys (get ?routes s)). truthy (get (get (get ?m y) s) d))"
        by auto
      have "for_each (forin_keys ?routes) (?src y) = Inr ()"
        using a(3) b by (simp add: same for_each_eq_Inr forin_keys_def)
      with a show "?tok y = Inr ()"
        by (simp add: same [symmetric] object_keys_def truthy_not_nullish validateKeys_subset)
    qed
  qed
  from cond(1) ct_keys
  have k1: "validateKeys [''minThresholdAmount''] (own_keys (get config' ''commitTransfers'')) = Inr ()"
    by (simp add: validateKeys_eq_Inr)
  from cond(2) m_keys have k2: "validateKeys eT (own_keys ?m') = Inr ()"
    by (simp add: validateKeys_eq_Inr)
  from nonempty m_keys have ne': "own_keys ?m' \<noteq> []" by simp
  then have nn: "\<not> nullish ?m'" by (cases ?m') auto
  from ct' k1 k2 ne' nn toks routes' show ?thesis
    by (simp add: check_commitTransfers_def Let_def object_keys_def truthy_not_nullish
          cong del: if_weak_cong)
qed

lemma falsy_not_nullish:
  assumes "\<not> truthy v" and "\<not> nullish v"
  shows "own_keys v = []" and "\<not> truthy (get v k)"
  using assms by (cases v; simp)+

lemma check_fees_token_falsy:
  assumes ok: "check_fees eC eT config = Inr ()" and fees: "truthy (get config ''fees'')"
    and routes': "get config' ''routes'' = get config ''routes''"
    and fees': "truthy (get config' ''fees'')"
    and keys': "own_keys (get config' ''fees'') = own_keys (get config ''fees'')"
    and others: "\<forall>t. t \<noteq> token \<longrightarrow> get (get config' ''fees'') t = get (get config ''fees'') t"
    and falsy: "\<not> truthy (get (get config' ''fees'') token)"
    and token: "token \<in> set (own_keys (get config ''fees''))"
  shows "nullish (get (get config' ''fees'') token)
           \<longrightarrow> check_fees eC eT config' = Inl TypeError"
    and "\<not> nullish (get (get config' ''fees'') token) \<and>
         (\<forall>s\<in>set (own_keys (get config ''routes'')). own_keys (get (get config ''routes'') s) = [])
           \<longrightarrow> check_fees eC eT config' = Inl (MissingFeeForToken token)"
    and "\<not> nullish (get (get config' ''fees'') token) \<and>
         \<not> (\<forall>s\<in>set (own_keys (get config ''routes'')). own_keys (get (get config ''routes'') s) = [])
           \<longrightarrow> (\<exists>s\<in>set (own_keys (get config ''routes'')).
                 \<exists>d\<in>set (own_keys (get (get config ''routes'') s)).
                   check_fees eC eT config' = Inl (MissingFeeForChain d token))"
proof -
  let ?v = "get (get config' ''fees'') token"
  from ok fees obtain ds where
    ds: "collect_destinations (get config ''routes'') (own_keys (get config ''routes'')) [] = Inr ds"
    and ds_set: "set ds = (\<Union>s\<in>set (own_keys (get config ''routes'')). set (own_keys (get (get config ''routes'') s)))"
    and sub: "set (own_keys (get config ''fees'')) \<subseteq> set eT"
    and per: "\<forall>t\<in>set (own_keys (get config ''fees'')).
        \<not> nullish (get (get config ''fees'') t) \<and>
        set (own_keys (get (get config ''fees'') t)) \<subseteq> set eC \<and>
        (\<forall>d\<in>set ds. truthy (get (get (get config ''fees'') t) d))"
    and all: "\<forall>t\<in>set eT. truthy (get (get config ''fees'') t)"
    by (rule check_fees_Inr_D)
  let ?inner = "\<lambda>t chain. if \<not> truthy (get_opt (get (get config' ''fees'') t) chain)
                   then Inl (MissingFeeForChain chain t) else Inr ()"
  let ?body = "\<lambda>t. ebind (object_keys (get (get config' ''fees'') t)) (\<lambda>chains.
                 ebind (validateKeys eC chains) (\<lambda>_. for_each ds (?inner t)))"
  let ?last = "\<lambda>t. if \<not> truthy (get_opt (get_opt config' ''fees'') t)
                 then Inl (MissingFeeForToken t) else Inr ()"
  have elsewhere: "\<forall>t\<in>set (own_keys (get config ''fees'')). t \<noteq> token \<longrightarrow> ?body t = Inr ()"
  proof (intro ballI impI)
    fix t assume t: "t \<in> set (own_keys (get config ''fees''))" and ne: "t \<noteq> token"
    from others ne have same: "get (get config' ''fees'') t = get (get config ''fees'') t" by simp
    from per t have "\<not> nullish (get (get config ''fees'') t)"
      "set (own_keys (get (get config ''fees'') t)) \<subseteq> set eC"
      "\<forall>d\<in>set ds. truthy (get (get (get config ''fees'') t) d)" by auto
    then show "?body t = Inr ()"
      by (simp add: same object_keys_def validateKeys_subset for_each_all_ok)
  qed
  from sub have k: "validateKeys eT (own_keys (get config ''fees'')) = Inr ()"
    by (simp add: validateKeys_eq_Inr)
  have run: "check_fees eC eT config'
               = ebind (for_each (own_keys (get config ''fees'')) ?body) (\<lambda>_. for_each eT ?last)"
    using fees' keys' routes' ds k
    by (simp add: check_fees_def object_keys_def forin_keys_def truthy_not_nullish)
  show "nullish ?v \<longrightarrow> check_fees eC eT config' = Inl TypeError"
  proof
    assume "nullish ?v"
    then have at: "?body token = Inl TypeError" by (simp add: object_keys_def)
    from token at elsewhere have "for_each (own_keys (get config ''fees'')) ?body = Inl TypeError"
      by (rule for_each_fails_at)
    with run show "check_fees eC eT config' = Inl TypeError" by simp
  qed
  have empty_iff: "ds = [] \<longleftrightarrow>
      (\<forall>s\<in>set (own_keys (get config ''routes'')). own_keys (get (get config ''routes'') s) = [])"
    using ds_set by (auto simp: set_empty [symmetric] simp del: set_empty)
  show "\<not> nullish ?v \<and>
         (\<forall>s\<in>set (own_keys (get config ''routes'')). own_keys (get (get config ''routes'') s) = [])
           \<longrightarrow> check_fees eC eT config' = Inl (MissingFeeForToken token)"
  proof
    assume h: "\<not> nullish ?v \<and>
         (\<forall>s\<in>set (own_keys (get config ''routes'')). own_keys (get (get config ''routes'') s) = [])"
    with empty_iff have nil: "ds = []" by simp
    from h falsy have "own_keys ?v = []" by (simp add: falsy_not_nullish)
    with h nil have "?body token = Inr ()" by (simp add: object_keys_def)
    with elsewhere have "for_each (own_keys (get config ''fees'')) ?body = Inr ()"
      by (auto simp: for_each_eq_Inr)
    with run have run': "check_fees eC eT config' = for_each eT ?last" by simp
    from token sub have in_eT: "token \<in> set eT" by auto
    have "for_each eT ?last = Inl (MissingFeeForToken token)"
    proof (rule for_each_fails_at [OF in_eT])
      show "?last token = Inl (MissingFeeForToken token)" using falsy by simp
      show "\<forall>y\<in>set eT. y \<noteq> token \<longrightarrow> ?last y = Inr ()"
        using all others by simp
    qed
    with run' show "check_fees eC eT config' = Inl (MissingFeeForToken token)" by simp
  qed
  show "\<not> nullish ?v \<and>
         \<not> (\<forall>s\<in>set (own_keys (get config ''routes'')). own_keys (get (get config ''routes'') s) = [])
           \<longrightarrow> (\<exists>s\<in>set (own_keys (get config ''routes'')).
                 \<exists>d\<in>set (own_keys (get (get config ''routes'') s)).
                   check_fees eC eT config' = Inl (MissingFeeForChain d token))"
  proof
    assume h: "\<not> nullish ?v \<and>
         \<not> (\<forall>s\<in>set (own_keys (get config ''routes'')). own_keys (get (get config ''routes'') s) = [])"
    with empty_iff obtain d0 rest where cons: "ds = d0 # rest" by (cases ds) auto
    from h falsy have keys_v: "own_keys ?v = []" and get_v: "\<not> truthy (get ?v d0)"
      by (simp_all add: falsy_not_nullish)
    from get_v have "for_each ds (?inner token) = Inl (MissingFeeForChain d0 token)"
      by (simp add: cons)
    with h keys_v have at: "?body token = Inl (MissingFeeForChain d0 token)"
      by (simp add: object_keys_def)
    from token at elsewhere
    have "for_each (own_keys (get config ''fees'')) ?body = Inl (MissingFeeForChain d0 token)"
      by (rule for_each_fails_at)
    with run have res: "check_fees eC eT config' = Inl (MissingFeeForChain d0 token)" by simp
    from cons ds_set obtain s where "s \<in> set (own_keys (get config ''routes''))"
      "d0 \<in> set (own_keys (get (get config ''routes'') s))" by auto
    with res show "\<exists>s\<in>set (own_keys (get config ''routes'')).
                 \<exists>d\<in>set (own_keys (get (get config ''routes'') s)).
                   check_fees eC eT config' = Inl (MissingFeeForChain d token)"
      by blast
  qed
qed

lemma get_set_prop_same: "get (set_prop (JObj kvs) k x) k = x"
  by (simp add: get_set_prop)

lemma get_set_prop_other: "k' \<noteq> k \<Longrightarrow> get (set_prop (JObj kvs) k x) k' = get (JObj kvs) k'"
  by (simp add: get_set_prop)

lemma fee_entry_falsy_fails:
  assumes valid: "validateConfigFileStructure K config = Inr ()" and falsy: "\<not> truthy v"
    and source: "source \<in> set (own_keys (get config ''routes''))"
    and chain: "chain \<in> set (own_keys (get (get config ''routes'') source))"
    and path: "has_path [''fees'', token, chain] config"
  shows "validateConfigFileStructure K (set_path [''fees'', token, chain] v config)
           = Inl (MissingFeeForChain chain token)"
proof -
  from path obtain cs where cs: "config = JObj cs" "''fees'' \<in> set (map fst cs)"
    and path1: "has_path [token, chain] (get config ''fees'')"
    by (rule has_path_Cons_D)
  from path1 obtain fs where fs: "get config ''fees'' = JObj fs" "token \<in> set (map fst fs)"
    and path2: "has_path [chain] (get (get config ''fees'') token)"
    by (rule has_path_Cons_D)
  from path2 obtain es where es: "get (get config ''fees'') token = JObj es"
    "chain \<in> set (map fst es)"
    by (rule has_path_Cons_D)
  have upd: "set_path [''fees'', token, chain] v config
               = set_prop (JObj cs) ''fees'' (set_prop (JObj fs) token (set_prop (JObj es) chain v))"
    using cs fs es by simp
  have "validateConfigFileStructure K
           (set_prop (JObj cs) ''fees'' (set_prop (JObj fs) token (set_prop (JObj es) chain v)))
         = Inl (MissingFeeForChain chain token)"
  proof (rule validate_fee_entry_replaced [where source = source])
    show "validateConfigFileStructure K (JObj cs) = Inr ()" using valid cs by simp
    show "''fees'' \<in> set (map fst cs)" by (rule cs)
    show "get (JObj cs) ''fees'' = JObj fs" using fs cs by simp
    show "token \<in> set (map fst fs)" by (rule fs)
    show "\<not> nullish (set_prop (JObj es) chain v)"
      using set_prop_is_object [of es chain v] by auto
    show "set (own_keys (set_prop (JObj es) chain v)) \<subseteq> set (own_keys (get (JObj fs) token))"
      using es fs own_keys_set_prop [of chain es v] by simp
    show "\<forall>d. d \<noteq> chain \<longrightarrow> get (set_prop (JObj es) chain v) d = get (get (JObj fs) token) d"
      using es fs by (simp add: get_set_prop)
    show "\<not> truthy (get (set_prop (JObj es) chain v) chain)"
      using falsy by (simp add: get_set_prop)
    show "source \<in> set (own_keys (get (JObj cs) ''routes''))" using source cs by simp
    show "chain \<in> set (own_keys (get (get (JObj cs) ''routes'') source))" using chain cs by simp
  qed
  with upd show ?thesis by simp
qed

lemma threshold_entry_falsy_fails:
  assumes valid: "validateConfigFileStructure K config = Inr ()" and falsy: "\<not> truthy v"
    and token: "token \<in> set (enabledTokens config)"
    and source: "source \<in> set (own_keys (get config ''routes''))" "source \<noteq> Chain_Ethereum K"
    and chain: "chain \<in> set (own_keys (get (get config ''routes'') source))"
    and path: "has_path [''commitTransfers'', ''minThresholdAmount'', token, source, chain] config"
  shows "validateConfigFileStructure K
           (set_path [''commitTransfers'', ''minThresholdAmount'', token, source, chain] v config)
           = Inl (MissingThresholdDestination token source chain)"
proof -
  from path obtain cs where cs: "config = JObj cs" "''commitTransfers'' \<in> set (map fst cs)"
    and p1: "has_path [''minThresholdAmount'', token, source, chain] (get config ''commitTransfers'')"
    by (rule has_path_Cons_D)
  from p1 obtain c1 where c1: "get config ''commitTransfers'' = JObj c1"
    "''minThresholdAmount'' \<in> set (map fst c1)"
    and p2: "has_path [token, source, chain]
               (get (get config ''commitTransfers'') ''minThresholdAmount'')"
    by (rule has_path_Cons_D)
  let ?m = "get (get config ''commitTransfers'') ''minThresholdAmount''"
  from p2 obtain ms where ms: "?m = JObj ms" "token \<in> set (map fst ms)"
    and p3: "has_path [source, chain] (get ?m token)"
    by (rule has_path_Cons_D)
  from p3 obtain ts where ts: "get ?m token = JObj ts" "source \<in> set (map fst ts)"
    and p4: "has_path [chain] (get (get ?m token) source)"
    by (rule has_path_Cons_D)
  from p4 obtain ss where ss: "get (get ?m token) source = JObj ss" "chain \<in> set (map fst ss)"
    by (rule has_path_Cons_D)
  let ?s' = "set_prop (JObj ss) chain v"
  let ?t' = "set_prop (JObj ts) source ?s'"
  let ?m' = "set_prop (JObj ms) token ?t'"
  let ?c1' = "set_prop (JObj c1) ''minThresholdAmount'' ?m'"
  let ?c' = "set_prop (JObj cs) ''commitTransfers'' ?c1'"
  have upd: "set_path [''commitTransfers'', ''minThresholdAmount'', token, source, chain] v config
               = ?c'"
    using cs c1 ms ts ss by simp
  from valid cs have valid': "validateConfigFileStructure K (JObj cs) = Inr ()" by simp
  from c1 cs have c1_l: "get (JObj cs) ''commitTransfers'' = JObj c1" by simp
  from ms c1 have ms_l: "get (JObj c1) ''minThresholdAmount'' = JObj ms" by simp
  from ts ms have ts_l: "get (JObj ms) token = JObj ts" by simp
  from ss ts have ss_l: "get (JObj ts) source = JObj ss" by simp
  have g_ct: "get ?c' ''commitTransfers'' = ?c1'" by (simp only: get_set_prop_same)
  have g_m: "get ?c1' ''minThresholdAmount'' = ?m'" by (simp only: get_set_prop_same)
  have g_t: "get ?m' token = ?t'" by (simp only: get_set_prop_same)
  have g_s: "get ?t' source = ?s'" by (simp only: get_set_prop_same)
  have g_d: "get ?s' chain = v" by (simp only: get_set_prop_same)
  have "validateConfigFileStructure K ?c' = Inl (MissingThresholdDestination token source chain)"
  proof (rule validate_fails_in_commitTransfers [OF valid' cs(2)])
    from valid'
    have ok: "check_commitTransfers K (enabledChains (JObj cs)) (enabledTokens (JObj cs)) (JObj cs)
                = Inr ()"
      by (simp add: validate_eq_Inr)
    show "check_commitTransfers K (enabledChains (JObj cs)) (enabledTokens (JObj cs)) ?c'
            = Inl (MissingThresholdDestination token source chain)"
    proof (rule check_commitTransfers_entry_missing [OF ok])
      show "truthy (get (JObj cs) ''commitTransfers'')" by (simp only: c1_l truthy.simps)
      show "own_keys (get (get (JObj cs) ''commitTransfers'') ''minThresholdAmount'') \<noteq> []"
        using ms(2) by (simp only: c1_l ms_l) auto
      show "get ?c' ''routes'' = get (JObj cs) ''routes''"
        by (simp add: get_set_prop)
      show "truthy (get ?c' ''commitTransfers'')"
        using set_prop_is_object [of c1 "''minThresholdAmount''" ?m'] by (auto simp only: g_ct truthy.simps)
      show "own_keys (get ?c' ''commitTransfers'') = own_keys (get (JObj cs) ''commitTransfers'')"
        using c1(2) by (simp only: g_ct c1_l own_keys_set_prop)
      show "own_keys (get (get ?c' ''commitTransfers'') ''minThresholdAmount'')
              = own_keys (get (get (JObj cs) ''commitTransfers'') ''minThresholdAmount'')"
        using ms(2) by (simp only: g_ct g_m c1_l ms_l own_keys_set_prop)
      show "\<forall>t. t \<noteq> token \<longrightarrow>
              get (get (get ?c' ''commitTransfers'') ''minThresholdAmount'') t
                = get (get (get (JObj cs) ''commitTransfers'') ''minThresholdAmount'') t"
        by (simp only: g_ct g_m c1_l ms_l) (simp add: get_set_prop_other)
      show "truthy (get (get (get ?c' ''commitTransfers'') ''minThresholdAmount'') token)"
        using set_prop_is_object [of ts source ?s'] by (auto simp only: g_ct g_m g_t truthy.simps)
      show "set (own_keys (get (get (get ?c' ''commitTransfers'') ''minThresholdAmount'') token))
              \<subseteq> set (own_keys (get (get (get (JObj cs) ''commitTransfers'')
                                     ''minThresholdAmount'') token))"
        using ts(2) by (simp only: g_ct g_m g_t c1_l ms_l ts_l own_keys_set_prop subset_refl)
      show "\<forall>s. s \<noteq> source \<longrightarrow>
              get (get (get (get ?c' ''commitTransfers'') ''minThresholdAmount'') token) s
                = get (get (get (get (JObj cs) ''commitTransfers'') ''minThresholdAmount'') token) s"
        by (simp only: g_ct g_m g_t c1_l ms_l ts_l) (simp add: get_set_prop_other)
      show "truthy (get (get (get (get ?c' ''commitTransfers'') ''minThresholdAmount'') token)
                      source)"
        using set_prop_is_object [of ss chain v] by (auto simp only: g_ct g_m g_t g_s truthy.simps)
      show "\<forall>d. d \<noteq> chain \<longrightarrow>
              get (get (get (get (get ?c' ''commitTransfers'') ''minThresholdAmount'') token)
                     source) d
                = get (get (get (get (get (JObj cs) ''commitTransfers'') ''minThresholdAmount'')
                              token) source) d"
        by (simp only: g_ct g_m g_t g_s c1_l ms_l ts_l ss_l) (simp add: get_set_prop_other)
      show "\<not> truthy (get (get (get (get (get ?c' ''commitTransfers'') ''minThresholdAmount'')
                               token) source) chain)"
        using falsy by (simp only: g_ct g_m g_t g_s g_d not_False_eq_True)
      show "token \<in> set (enabledTokens (JObj cs))" using token cs by simp
      show "source \<in> set (own_keys (get (JObj cs) ''routes''))" using source cs by simp
      show "source \<noteq> Chain_Ethereum K" by (rule source)
      show "chain \<in> set (own_keys (get (get (JObj cs) ''routes'') source))" using chain cs by simp
    qed
  qed
  with upd show ?thesis by simp
qed

lemma fee_token_falsy_fails:
  assumes valid: "validateConfigFileStructure K config = Inr ()" and falsy: "\<not> truthy v"
    and path: "has_path [''fees'', token] config"
  shows "nullish v \<longrightarrow>
           validateConfigFileStructure K (set_path [''fees'', token] v config) = Inl TypeError"
    and "\<not> nullish v \<and>
         (\<forall>s\<in>set (own_keys (get config ''routes'')). own_keys (get (get config ''routes'') s) = [])
           \<longrightarrow> validateConfigFileStructure K (set_path [''fees'', token] v config)
                 = Inl (MissingFeeForToken token)"
    and "\<not> nullish v \<and>
         \<not> (\<forall>s\<in>set (own_keys (get config ''routes'')). own_keys (get (get config ''routes'') s) = [])
           \<longrightarrow> (\<exists>s\<in>set (own_keys (get config ''routes'')).
                 \<exists>d\<in>set (own_keys (get (get config ''routes'') s)).
                   validateConfigFileStructure K (set_path [''fees'', token] v config)
                     = Inl (MissingFeeForChain d token))"
proof -
  from path obtain cs where cs: "config = JObj cs" "''fees'' \<in> set (map fst cs)"
    and path1: "has_path [token] (get config ''fees'')"
    by (rule has_path_Cons_D)
  from path1 obtain fs where fs: "get config ''fees'' = JObj fs" "token \<in> set (map fst fs)"
    by (rule has_path_Cons_D)
  let ?x = "set_prop (JObj fs) token v"
  let ?c' = "set_prop (JObj cs) ''fees'' ?x"
  have upd: "set_path [''fees'', token] v (JObj cs) = ?c'"
    using cs fs by simp
  from valid cs have valid': "validateConfigFileStructure K (JObj cs) = Inr ()" by simp
  from fs cs have fs_l: "get (JObj cs) ''fees'' = JObj fs" by simp
  have g_f: "get ?c' ''fees'' = ?x" by (simp only: get_set_prop_same)
  have g_t: "get ?x token = v" by (simp only: get_set_prop_same)
  from valid'
  have ok: "check_fees (enabledChains (JObj cs)) (enabledTokens (JObj cs)) (JObj cs) = Inr ()"
    by (simp add: validate_eq_Inr)
  have a1: "truthy (get (JObj cs) ''fees'')" by (simp only: fs_l truthy.simps)
  have a2: "get ?c' ''routes'' = get (JObj cs) ''routes''" by (simp add: get_set_prop)
  have a3: "truthy (get ?c' ''fees'')"
    using set_prop_is_object [of fs token v] by (auto simp only: g_f truthy.simps)
  have a4: "own_keys (get ?c' ''fees'') = own_keys (get (JObj cs) ''fees'')"
    using fs(2) by (simp only: g_f fs_l own_keys_set_prop)
  have a5: "\<forall>t. t \<noteq> token \<longrightarrow> get (get ?c' ''fees'') t = get (get (JObj cs) ''fees'') t"
    by (simp only: g_f fs_l) (simp add: get_set_prop_other)
  have a6: "\<not> truthy (get (get ?c' ''fees'') token)"
    using falsy by (simp only: g_f g_t not_False_eq_True)
  have a7: "token \<in> set (own_keys (get (JObj cs) ''fees''))"
    using fs(2) by (simp only: fs_l own_keys.simps)
  have v: "get (get ?c' ''fees'') token = v" by (simp only: g_f g_t)
  note fees = check_fees_token_falsy [OF ok a1 a2 a3 a4 a5 a6 a7, unfolded v]
  show "nullish v \<longrightarrow>
           validateConfigFileStructure K (set_path [''fees'', token] v config) = Inl TypeError"
    unfolding cs(1) upd using fees(1) validate_fails_in_fees [OF valid' cs(2)] by blast
  show "\<not> nullish v \<and>
         (\<forall>s\<in>set (own_keys (get config ''routes'')). own_keys (get (get config ''routes'') s) = [])
           \<longrightarrow> validateConfigFileStructure K (set_path [''fees'', token] v config)
                 = Inl (MissingFeeForToken token)"
    unfolding cs(1) upd using fees(2) validate_fails_in_fees [OF valid' cs(2)] by blast
  show "\<not> nullish v \<and>
         \<not> (\<forall>s\<in>set (own_keys (get config ''routes'')). own_keys (get (get config ''routes'') s) = [])
           \<longrightarrow> (\<exists>s\<in>set (own_keys (get config ''routes'')).
                 \<exists>d\<in>set (own_keys (get (get config ''routes'') s)).
                   validateConfigFileStructure K (set_path [''fees'', token] v config)
                     = Inl (MissingFeeForChain d token))"
  proof
    assume h: "\<not> nullish v \<and>
         \<not> (\<forall>s\<in>set (own_keys (get config ''routes'')). own_keys (get (get config ''routes'') s) = [])"
    with fees(3) cs(1) obtain s d where sd: "s \<in> set (own_keys (get config ''routes''))"
      "d \<in> set (own_keys (get (get config ''routes'') s))"
      "check_fees (enabledChains (JObj cs)) (enabledTokens (JObj cs)) ?c'
         = Inl (MissingFeeForChain d token)"
      by auto
    from validate_fails_in_fees [OF valid' cs(2) sd(3)]
    have "validateConfigFileStructure K (set_path [''fees'', token] v config)
            = Inl (MissingFeeForChain d token)"
      unfolding cs(1) upd .
    with sd show "\<exists>s\<in>set (own_keys (get config ''routes'')).
                 \<exists>d\<in>set (own_keys (get (get config ''routes'') s)).
                   validateConfigFileStructure K (set_path [''fees'', token] v config)
                     = Inl (MissingFeeForChain d token)"
      by blast
  qed
qed

text \<open>
  C9, as amended: the existence checks of the fee and threshold matrices test truthiness
  and not the presence of the key. In an accepted configuration, a falsy value written
  at an entry \<^verbatim>\<open>fees[token][destinationChain]\<close> of a declared destination, or at an entry
  \<^verbatim>\<open>minThresholdAmount[token][sourceChain][destinationChain]\<close> of a declared route whose
  source is not the base chain, makes the pass fail with the missing-entry error of that
  entry (lines 198 and 233), although the key is there. A falsy value written at
  \<^verbatim>\<open>fees[token]\<close> makes the pass fail as well, but not always with the error of line 205:
  \<^verbatim>\<open>null\<close> raises the TypeError of \<^verbatim>\<open>Object.keys\<close> at line 193; \<^verbatim>\<open>0\<close>, \<^verbatim>\<open>false\<close> and
  the empty string give the error of line 205 where the routes declare no destination,
  and the error of line 198 for a declared destination and that token otherwise.
\<close>

theorem falsy_entry_is_missing:
  assumes valid: "validateConfigFileStructure K config = Inr ()" and falsy: "\<not> truthy v"
  shows "(\<forall>token source chain.
            source \<in> set (own_keys (get config ''routes'')) \<and>
            chain \<in> set (own_keys (get (get config ''routes'') source)) \<and>
            has_path [''fees'', token, chain] config
            \<longrightarrow> validateConfigFileStructure K (set_path [''fees'', token, chain] v config)
                  = Inl (MissingFeeForChain chain token)) \<and>
         (\<forall>token source chain.
            token \<in> set (enabledTokens config) \<and>
            source \<in> set (own_keys (get config ''routes'')) \<and>
            source \<noteq> Chain_Ethereum K \<and>
            chain \<in> set (own_keys (get (get config ''routes'') source)) \<and>
            has_path [''commitTransfers'', ''minThresholdAmount'', token, source, chain] config
            \<longrightarrow> validateConfigFileStructure K
                   (set_path [''commitTransfers'', ''minThresholdAmount'', token, source, chain]
                      v config)
                  = Inl (MissingThresholdDestination token source chain)) \<and>
         (\<forall>token.
            has_path [''fees'', token] config
            \<longrightarrow> (nullish v \<longrightarrow>
                    validateConfigFileStructure K (set_path [''fees'', token] v config)
                      = Inl TypeError) \<and>
                 (\<not> nullish v \<and>
                  (\<forall>s\<in>set (own_keys (get config ''routes'')).
                     own_keys (get (get config ''routes'') s) = [])
                  \<longrightarrow> validateConfigFileStructure K (set_path [''fees'', token] v config)
                        = Inl (MissingFeeForToken token)) \<and>
                 (\<not> nullish v \<and>
                  \<not> (\<forall>s\<in>set (own_keys (get config ''routes'')).
                       own_keys (get (get config ''routes'') s) = [])
                  \<longrightarrow> (\<exists>s\<in>set (own_keys (get config ''routes'')).
                        \<exists>d\<in>set (own_keys (get (get config ''routes'') s)).
                          validateConfigFileStructure K (set_path [''fees'', token] v config)
                            = Inl (MissingFeeForChain d token))))"
  using fee_entry_falsy_fails [OF valid falsy] threshold_entry_falsy_fails [OF valid falsy]
    fee_token_falsy_fails [OF valid falsy]
  by blast

theorem falsy_entry_is_missing_witness:
  "validateConfigFileStructure hop_constants scenario_config = Inr () \<and>
   \<not> truthy (JNum 0) \<and> \<not> truthy JNull \<and>
   has_path [''fees'', ''USDC'', ''optimism''] scenario_config \<and>
   validateConfigFileStructure hop_constants
     (set_path [''fees'', ''USDC'', ''optimism''] (JNum 0) scenario_config)
     = Inl (MissingFeeForChain ''optimism'' ''USDC'') \<and>
   has_path [''commitTransfers'', ''minThresholdAmount'', ''USDC'', ''optimism'', ''ethereum'']
     scenario_config \<and>
   validateConfigFileStructure hop_constants
     (set_path [''commitTransfers'', ''minThresholdAmount'', ''USDC'', ''optimism'', ''ethereum'']
        (JNum 0) scenario_config)
     = Inl (MissingThresholdDestination ''USDC'' ''optimism'' ''ethereum'') \<and>
   has_path [''fees'', ''USDC''] scenario_config \<and>
   validateConfigFileStructure hop_constants (set_path [''fees'', ''USDC''] JNull scenario_config)
     = Inl TypeError \<and>
   validateConfigFileStructure hop_constants (set_path [''fees'', ''USDC''] (JNum 0) scenario_config)
     = Inl (MissingFeeForChain ''optimism'' ''USDC'')"
proof -
  have valid: "validateConfigFileStructure hop_constants scenario_config = Inr ()"
    by (simp add: scenario_config_def structure_defs)
  have zero: "\<not> truthy (JNum 0)" and null: "\<not> truthy JNull" "nullish JNull"
    by simp_all
  have facts: "''USDC'' \<in> set (enabledTokens scenario_config)"
    "''ethereum'' \<in> set (own_keys (get scenario_config ''routes''))"
    "''optimism'' \<in> set (own_keys (get (get scenario_config ''routes'') ''ethereum''))"
    "''optimism'' \<in> set (own_keys (get scenario_config ''routes''))"
    "''optimism'' \<noteq> Chain_Ethereum hop_constants"
    "''ethereum'' \<in> set (own_keys (get (get scenario_config ''routes'') ''optimism''))"
    "has_path [''fees'', ''USDC'', ''optimism''] scenario_config"
    "has_path [''commitTransfers'', ''minThresholdAmount'', ''USDC'', ''optimism'', ''ethereum'']
       scenario_config"
    "has_path [''fees'', ''USDC''] scenario_config"
    by (simp_all add: scenario_config_def enabledTokens_def hop_constants_def)
  have direct: "validateConfigFileStructure hop_constants
                  (set_path [''fees'', ''USDC''] (JNum 0) scenario_config)
                  = Inl (MissingFeeForChain ''optimism'' ''USDC'')"
    by (simp add: scenario_config_def surgery_defs structure_defs)
  from falsy_entry_is_missing [OF valid zero] facts
  have a: "validateConfigFileStructure hop_constants
     (set_path [''fees'', ''USDC'', ''optimism''] (JNum 0) scenario_config)
     = Inl (MissingFeeForChain ''optimism'' ''USDC'')"
    and b: "validateConfigFileStructure hop_constants
     (set_path [''commitTransfers'', ''minThresholdAmount'', ''USDC'', ''optimism'', ''ethereum'']
        (JNum 0) scenario_config)
     = Inl (MissingThresholdDestination ''USDC'' ''optimism'' ''ethereum'')"
    by blast+
  from falsy_entry_is_missing [OF valid null(1)] facts null(2)
  have c: "validateConfigFileStructure hop_constants
             (set_path [''fees'', ''USDC''] JNull scenario_config) = Inl TypeError"
    by blast
  from valid zero null(1) facts a b c direct show ?thesis
    by simp
qed

text \<open>
  The enabled token \<^verbatim>\<open>USDC\<close> with \<^verbatim>\<open>fees.USDC = null\<close>: the key is there and the value is
  falsy, and the pass ends with a TypeError, which is no missing-entry error.
\<close>

theorem null_token_fee_raises_TypeError:
  "''USDC'' \<in> set (enabledTokens null_fee_config) \<and>
   ''USDC'' \<in> set (own_keys (get null_fee_config ''fees'')) \<and>
   get (get null_fee_config ''fees'') ''USDC'' = JNull \<and>
   validateConfigFileStructure hop_constants null_fee_config = Inl TypeError \<and>
   validateConfigFileStructure hop_constants null_fee_config \<noteq> Inl (MissingFeeForToken ''USDC'')"
  by (simp add: null_fee_config_def enabledTokens_def structure_defs)

section \<open>The value pass\<close>

lemmas values_defs = validateConfigValues_def validate_network_def check_rpcUrl_def
  check_positive_def values_commitTransfers_def values_bonders_def validate_vault_entry_def
  values_vault_def values_blocklist_def get_prop_def object_keys_def forin_keys_def
  has_own_def example_env_def hop_constants_def

text \<open>
  The reads of line 349 through the prototype chain: a route \<^verbatim>\<open>constructor\<close> to
  \<^verbatim>\<open>length\<close> is accepted, a route \<^verbatim>\<open>constructor\<close> to \<^verbatim>\<open>name\<close> gets the error of line 350.
\<close>

lemma threshold_read_inherited:
  "validateConfigValues example_env hop_constants inherited_length_config = Inr ()"
  "validateConfigValues example_env hop_constants inherited_name_config
     = Inl (ThresholdNotNumber ''USDC'' ''constructor'' ''name'')"
  by (simp_all add: inherited_length_config_def inherited_name_config_def values_defs)

lemma check_rpcUrl_eq_Inr:
  "check_rpcUrl E rpcUrl = Inr () \<longleftrightarrow>
     (\<exists>parsed. parseURL E rpcUrl = Some parsed \<and> host parsed \<noteq> [] \<and>
        protocol parsed \<in> set [''http:'', ''https:''])"
  by (auto simp: check_rpcUrl_def split: option.splits)

lemma check_rpcUrl_cases:
  "check_rpcUrl E rpcUrl = Inr () \<or> check_rpcUrl E rpcUrl = Inl (RpcUrlInvalid rpcUrl)"
  by (simp add: check_rpcUrl_def split: option.splits)

lemma validate_network_rpcUrl_ok:
  "validate_network E chainSlug chain = Inr () \<Longrightarrow> rpcUrl_ok E chain"
  by (auto simp: validate_network_def rpcUrl_ok_def Let_def ebind_eq_Inr check_rpcUrl_eq_Inr
        split: if_splits json.splits)

lemma validate_network_invalid:
  assumes "truthy chain" and "get chain ''rpcUrl'' = JStr rpcUrl" and "rpcUrl \<noteq> []"
    and "\<not> rpcUrl_ok E chain"
  shows "validate_network E chainSlug chain = Inl (RpcUrlInvalid rpcUrl)"
proof -
  from assms have "check_rpcUrl E rpcUrl \<noteq> Inr ()"
    by (auto simp: rpcUrl_ok_def check_rpcUrl_eq_Inr)
  with check_rpcUrl_cases [of E rpcUrl] have "check_rpcUrl E rpcUrl = Inl (RpcUrlInvalid rpcUrl)"
    by blast
  with assms show ?thesis
    by (simp add: validate_network_def)
qed

lemma validateConfigValues_eq_Inr:
  "validateConfigValues E K config = Inr () \<longleftrightarrow>
     truthy config \<and> instanceof_Object config \<and>
     (\<forall>chainSlug\<in>set (own_keys (get config ''networks'')).
        validate_network E chainSlug (get (get config ''networks'') chainSlug) = Inr ()) \<and>
     values_commitTransfers E K config = Inr () \<and>
     values_bonders E config = Inr () \<and>
     values_vault config = Inr () \<and>
     values_blocklist config = Inr ()"
  by (auto simp: validateConfigValues_def ebind_eq_Inr for_each_eq_Inr forin_keys_def)

text \<open>
  C6: an accepted configuration has, for every chain of \<^verbatim>\<open>config.networks\<close>, a
  non-empty string \<^verbatim>\<open>rpcUrl\<close> that parses with a host and the scheme \<^verbatim>\<open>http:\<close> or
  \<^verbatim>\<open>https:\<close>, and a chain without one makes the pass fail. For one chain: a falsy
  \<^verbatim>\<open>rpcUrl\<close> gives the error of line 307, one that is not a string the error of line 310,
  and a string that does not parse so the invalid-URL error of line 318. A URL whose
  scheme is not HTTP or HTTPS, as \<^verbatim>\<open>ftp://host\<close>, fails the URL check; one that parses with
  a host and \<^verbatim>\<open>https:\<close>, as \<^verbatim>\<open>https://host\<close>, passes it.
\<close>

theorem rpcUrl_checked:
  "(validateConfigValues E K config = Inr ()
      \<longrightarrow> (\<forall>chainSlug\<in>set (own_keys (get config ''networks'')).
             rpcUrl_ok E (get (get config ''networks'') chainSlug))) \<and>
   ((\<exists>chainSlug\<in>set (own_keys (get config ''networks'')).
        \<not> rpcUrl_ok E (get (get config ''networks'') chainSlug))
      \<longrightarrow> (\<exists>e. validateConfigValues E K config = Inl e)) \<and>
   (truthy chain \<and> \<not> truthy (get chain ''rpcUrl'')
      \<longrightarrow> validate_network E chainSlug chain = Inl (RpcUrlRequired chainSlug)) \<and>
   (truthy chain \<and> truthy (get chain ''rpcUrl'') \<and> typeof (get chain ''rpcUrl'') \<noteq> T_string
      \<longrightarrow> validate_network E chainSlug chain = Inl (RpcUrlNotString chainSlug)) \<and>
   (truthy chain \<and> get chain ''rpcUrl'' = JStr rpcUrl \<and> rpcUrl \<noteq> [] \<and> \<not> rpcUrl_ok E chain
      \<longrightarrow> validate_network E chainSlug chain = Inl (RpcUrlInvalid rpcUrl)) \<and>
   ((\<forall>parsed. parseURL E rpcUrl = Some parsed
        \<longrightarrow> protocol parsed \<notin> set [''http:'', ''https:''])
      \<longrightarrow> check_rpcUrl E rpcUrl = Inl (RpcUrlInvalid rpcUrl)) \<and>
   (parseURL E rpcUrl = Some parsed \<and> host parsed \<noteq> [] \<and>
    protocol parsed \<in> set [''http:'', ''https:'']
      \<longrightarrow> check_rpcUrl E rpcUrl = Inr ())"
proof -
  have need: "\<forall>chainSlug\<in>set (own_keys (get config ''networks'')).
             rpcUrl_ok E (get (get config ''networks'') chainSlug)"
    if "validateConfigValues E K config = Inr ()"
    using that by (auto simp: validateConfigValues_eq_Inr intro: validate_network_rpcUrl_ok)
  then have fails: "\<exists>e. validateConfigValues E K config = Inl e"
    if "\<exists>chainSlug\<in>set (own_keys (get config ''networks'')).
        \<not> rpcUrl_ok E (get (get config ''networks'') chainSlug)"
    using that by (auto simp: not_Inr_unit [symmetric])
  have required: "validate_network E chainSlug chain = Inl (RpcUrlRequired chainSlug)"
    if "truthy chain \<and> \<not> truthy (get chain ''rpcUrl'')"
    using that by (simp add: validate_network_def)
  have string: "validate_network E chainSlug chain = Inl (RpcUrlNotString chainSlug)"
    if "truthy chain \<and> truthy (get chain ''rpcUrl'') \<and> typeof (get chain ''rpcUrl'') \<noteq> T_string"
    using that by (cases "get chain ''rpcUrl''") (simp_all add: validate_network_def)
  have invalid: "validate_network E chainSlug chain = Inl (RpcUrlInvalid rpcUrl)"
    if "truthy chain \<and> get chain ''rpcUrl'' = JStr rpcUrl \<and> rpcUrl \<noteq> [] \<and> \<not> rpcUrl_ok E chain"
    using that by (simp add: validate_network_invalid)
  have scheme: "check_rpcUrl E rpcUrl = Inl (RpcUrlInvalid rpcUrl)"
    if "\<forall>parsed. parseURL E rpcUrl = Some parsed
        \<longrightarrow> protocol parsed \<notin> set [''http:'', ''https:'']"
    using that by (auto simp: check_rpcUrl_def split: option.splits)
  have https: "check_rpcUrl E rpcUrl = Inr ()"
    if "parseURL E rpcUrl = Some parsed \<and> host parsed \<noteq> [] \<and>
        protocol parsed \<in> set [''http:'', ''https:'']"
    using that by (auto simp: check_rpcUrl_eq_Inr)
  from need fails required string invalid scheme https show ?thesis
    by blast
qed

theorem rpcUrl_checked_witness:
  "validateConfigValues example_env hop_constants resolved_config = Inr () \<and>
   rpcUrl_ok example_env (get (get resolved_config ''networks'') ''ethereum'') \<and>
   \<not> rpcUrl_ok example_env (get (get ftp_config ''networks'') ''ethereum'') \<and>
   validateConfigValues example_env hop_constants ftp_config = Inl (RpcUrlInvalid ''ftp://host'') \<and>
   validate_network example_env ''ethereum'' (JObj [(''rpcUrl'', JStr [])])
     = Inl (RpcUrlRequired ''ethereum'') \<and>
   validate_network example_env ''ethereum'' (JObj [(''rpcUrl'', JNum 8545)])
     = Inl (RpcUrlNotString ''ethereum'') \<and>
   validate_network example_env ''ethereum'' (JObj [(''rpcUrl'', JStr ''ftp://host'')])
     = Inl (RpcUrlInvalid ''ftp://host'') \<and>
   check_rpcUrl example_env ''ftp://host'' = Inl (RpcUrlInvalid ''ftp://host'') \<and>
   check_rpcUrl example_env ''https://host'' = Inr ()"
proof -
  note rule = rpcUrl_checked [of example_env hop_constants]
  have valid: "validateConfigValues example_env hop_constants resolved_config = Inr ()"
    by (simp add: resolved_config_def values_defs)
  have slug: "''ethereum'' \<in> set (own_keys (get resolved_config ''networks''))"
    by (simp add: resolved_config_def)
  from rule [of resolved_config] valid slug
  have ok: "rpcUrl_ok example_env (get (get resolved_config ''networks'') ''ethereum'')"
    by blast
  have bad: "''ethereum'' \<in> set (own_keys (get ftp_config ''networks''))"
    "\<not> rpcUrl_ok example_env (get (get ftp_config ''networks'') ''ethereum'')"
    by (simp_all add: ftp_config_def rpcUrl_ok_def example_env_def)
  have ftp_pass: "validateConfigValues example_env hop_constants ftp_config
                    = Inl (RpcUrlInvalid ''ftp://host'')"
    by (simp add: ftp_config_def values_defs)
  have empty: "truthy (JObj [(''rpcUrl'', JStr [])]) \<and>
               \<not> truthy (get (JObj [(''rpcUrl'', JStr [])]) ''rpcUrl'')"
    by simp
  from rule [where chain = "JObj [(''rpcUrl'', JStr [])]" and chainSlug = "''ethereum''"] empty
  have required: "validate_network example_env ''ethereum'' (JObj [(''rpcUrl'', JStr [])])
                    = Inl (RpcUrlRequired ''ethereum'')"
    by blast
  have number: "truthy (JObj [(''rpcUrl'', JNum 8545)]) \<and>
                truthy (get (JObj [(''rpcUrl'', JNum 8545)]) ''rpcUrl'') \<and>
                typeof (get (JObj [(''rpcUrl'', JNum 8545)]) ''rpcUrl'') \<noteq> T_string"
    by simp
  from rule [where chain = "JObj [(''rpcUrl'', JNum 8545)]" and chainSlug = "''ethereum''"] number
  have string: "validate_network example_env ''ethereum'' (JObj [(''rpcUrl'', JNum 8545)])
                  = Inl (RpcUrlNotString ''ethereum'')"
    by blast
  have ftp: "truthy (JObj [(''rpcUrl'', JStr ''ftp://host'')]) \<and>
             get (JObj [(''rpcUrl'', JStr ''ftp://host'')]) ''rpcUrl'' = JStr ''ftp://host'' \<and>
             ''ftp://host'' \<noteq> [] \<and>
             \<not> rpcUrl_ok example_env (JObj [(''rpcUrl'', JStr ''ftp://host'')])"
    by (simp add: rpcUrl_ok_def example_env_def)
  from rule [where chain = "JObj [(''rpcUrl'', JStr ''ftp://host'')]"
      and chainSlug = "''ethereum''" and rpcUrl = "''ftp://host''"] ftp
  have invalid: "validate_network example_env ''ethereum'' (JObj [(''rpcUrl'', JStr ''ftp://host'')])
                   = Inl (RpcUrlInvalid ''ftp://host'')"
    by blast
  have scheme: "\<forall>parsed. parseURL example_env ''ftp://host'' = Some parsed
                  \<longrightarrow> protocol parsed \<notin> set [''http:'', ''https:'']"
    by (simp add: example_env_def)
  from rule [where rpcUrl = "''ftp://host''"] scheme
  have ftp_check: "check_rpcUrl example_env ''ftp://host'' = Inl (RpcUrlInvalid ''ftp://host'')"
    by blast
  have parsed: "parseURL example_env ''https://host''
                  = Some \<lparr> protocol = ''https:'', host = ''host'' \<rparr> \<and>
                host \<lparr> protocol = ''https:'', host = ''host'' \<rparr> \<noteq> [] \<and>
                protocol \<lparr> protocol = ''https:'', host = ''host'' \<rparr> \<in> set [''http:'', ''https:'']"
    by (simp add: example_env_def)
  from rule [where rpcUrl = "''https://host''"
      and parsed = "\<lparr> protocol = ''https:'', host = ''host'' \<rparr>"] parsed
  have https_check: "check_rpcUrl example_env ''https://host'' = Inr ()"
    by blast
  from valid ok bad(2) ftp_pass required string invalid ftp_check https_check show ?thesis
    by blast
qed

lemma validate_vault_entry_eq_Inr:
  "validate_vault_entry chainTokenConfig = Inr () \<longleftrightarrow>
     \<not> nullish chainTokenConfig \<and> vault_entry_ok chainTokenConfig"
proof (cases "nullish chainTokenConfig")
  case True
  then show ?thesis by (simp add: validate_vault_entry_def get_prop_def)
next
  case False
  then show ?thesis
    by (cases "get chainTokenConfig ''autoDeposit''")
       (auto simp: validate_vault_entry_def get_prop_def vault_entry_ok_def ebind_eq_Inr
          split: if_splits)
qed

lemma values_vault_eq_Inr:
  "truthy (get config ''vault'') \<Longrightarrow>
   values_vault config = Inr () \<longleftrightarrow>
     (\<forall>tokenSymbol\<in>set (own_keys (get config ''vault'')).
        \<forall>chain\<in>set (own_keys (get (get config ''vault'') tokenSymbol)).
          validate_vault_entry (get (get (get config ''vault'') tokenSymbol) chain) = Inr ())"
  by (simp add: values_vault_def Let_def for_each_eq_Inr forin_keys_def)

text \<open>
  C7, as amended: an accepted configuration has, for every token and chain of the
  \<^verbatim>\<open>vault\<close> section, an entry with a boolean \<^verbatim>\<open>autoDeposit\<close>, numeric
  \<^verbatim>\<open>depositThresholdAmount\<close> and \<^verbatim>\<open>depositAmount\<close> where \<^verbatim>\<open>autoDeposit\<close> is true, a boolean
  \<^verbatim>\<open>autoWithdraw\<close> and a \<^verbatim>\<open>strategy\<close> among \<^verbatim>\<open>yearn\<close> and \<^verbatim>\<open>aave\<close>; an entry that
  violates one of these makes the pass fail. The checks of an entry run in this order and
  the first one violated gives the error: with \<^verbatim>\<open>autoDeposit = true\<close>, a
  \<^verbatim>\<open>depositThresholdAmount\<close> that is no number gives the error of line 387, whatever
  \<^verbatim>\<open>depositAmount\<close> is, and a \<^verbatim>\<open>depositAmount\<close> that is no number gives the error of line
  390, which names \<^verbatim>\<open>depositAmount\<close>, where \<^verbatim>\<open>depositThresholdAmount\<close> is a number.
\<close>

theorem vault_entries_checked:
  "(validateConfigValues E K config = Inr ()
      \<longrightarrow> (\<forall>tokenSymbol\<in>set (own_keys (get config ''vault'')).
             \<forall>chain\<in>set (own_keys (get (get config ''vault'') tokenSymbol)).
               vault_entry_ok (get (get (get config ''vault'') tokenSymbol) chain))) \<and>
   ((\<exists>tokenSymbol\<in>set (own_keys (get config ''vault'')).
       \<exists>chain\<in>set (own_keys (get (get config ''vault'') tokenSymbol)).
         \<not> vault_entry_ok (get (get (get config ''vault'') tokenSymbol) chain))
      \<longrightarrow> (\<exists>e. validateConfigValues E K config = Inl e)) \<and>
   (validate_vault_entry chainTokenConfig = Inr ()
      \<longleftrightarrow> \<not> nullish chainTokenConfig \<and> vault_entry_ok chainTokenConfig) \<and>
   (get chainTokenConfig ''autoDeposit'' = JBool True \<and>
    typeof (get chainTokenConfig ''depositThresholdAmount'') = T_number \<and>
    typeof (get chainTokenConfig ''depositAmount'') \<noteq> T_number
      \<longrightarrow> validate_vault_entry chainTokenConfig = Inl DepositAmountNotNumber) \<and>
   (get chainTokenConfig ''autoDeposit'' = JBool True \<and>
    typeof (get chainTokenConfig ''depositThresholdAmount'') \<noteq> T_number
      \<longrightarrow> validate_vault_entry chainTokenConfig = Inl DepositThresholdAmountNotNumber) \<and>
   (nullish chainTokenConfig \<longrightarrow> validate_vault_entry chainTokenConfig = Inl TypeError) \<and>
   (\<not> nullish chainTokenConfig \<and> typeof (get chainTokenConfig ''autoDeposit'') \<noteq> T_boolean
      \<longrightarrow> validate_vault_entry chainTokenConfig = Inl AutoDepositNotBoolean) \<and>
   (typeof (get chainTokenConfig ''autoDeposit'') = T_boolean \<and>
    (get chainTokenConfig ''autoDeposit'' = JBool True \<longrightarrow>
       typeof (get chainTokenConfig ''depositThresholdAmount'') = T_number \<and>
       typeof (get chainTokenConfig ''depositAmount'') = T_number) \<and>
    typeof (get chainTokenConfig ''autoWithdraw'') \<noteq> T_boolean
      \<longrightarrow> validate_vault_entry chainTokenConfig = Inl AutoWithdrawNotBoolean) \<and>
   (typeof (get chainTokenConfig ''autoDeposit'') = T_boolean \<and>
    (get chainTokenConfig ''autoDeposit'' = JBool True \<longrightarrow>
       typeof (get chainTokenConfig ''depositThresholdAmount'') = T_number \<and>
       typeof (get chainTokenConfig ''depositAmount'') = T_number) \<and>
    typeof (get chainTokenConfig ''autoWithdraw'') = T_boolean \<and>
    get chainTokenConfig ''strategy'' \<notin> set [JStr ''yearn'', JStr ''aave'']
      \<longrightarrow> validate_vault_entry chainTokenConfig = Inl StrategyInvalid)"
proof -
  have need: "\<forall>tokenSymbol\<in>set (own_keys (get config ''vault'')).
             \<forall>chain\<in>set (own_keys (get (get config ''vault'') tokenSymbol)).
               vault_entry_ok (get (get (get config ''vault'') tokenSymbol) chain)"
    if valid: "validateConfigValues E K config = Inr ()"
  proof (cases "truthy (get config ''vault'')")
    case True
    from valid have "values_vault config = Inr ()"
      by (simp add: validateConfigValues_eq_Inr)
    with True show ?thesis
      by (simp add: values_vault_eq_Inr validate_vault_entry_eq_Inr)
  next
    case False
    then have "own_keys (get config ''vault'') = []"
      by (cases "get config ''vault''") simp_all
    then show ?thesis by simp
  qed
  then have fails: "\<exists>e. validateConfigValues E K config = Inl e"
    if "\<exists>tokenSymbol\<in>set (own_keys (get config ''vault'')).
           \<exists>chain\<in>set (own_keys (get (get config ''vault'') tokenSymbol)).
             \<not> vault_entry_ok (get (get (get config ''vault'') tokenSymbol) chain)"
    using that by (auto simp: not_Inr_unit [symmetric])
  have there: "\<not> nullish chainTokenConfig"
    if "typeof (get chainTokenConfig ''autoDeposit'') = T_boolean"
    using that by (cases chainTokenConfig) auto
  have amount: "validate_vault_entry chainTokenConfig = Inl DepositAmountNotNumber"
    if "get chainTokenConfig ''autoDeposit'' = JBool True \<and>
        typeof (get chainTokenConfig ''depositThresholdAmount'') = T_number \<and>
        typeof (get chainTokenConfig ''depositAmount'') \<noteq> T_number"
    using that there by (simp add: validate_vault_entry_def get_prop_def)
  have threshold: "validate_vault_entry chainTokenConfig = Inl DepositThresholdAmountNotNumber"
    if "get chainTokenConfig ''autoDeposit'' = JBool True \<and>
        typeof (get chainTokenConfig ''depositThresholdAmount'') \<noteq> T_number"
    using that there by (simp add: validate_vault_entry_def get_prop_def)
  have null: "validate_vault_entry chainTokenConfig = Inl TypeError"
    if "nullish chainTokenConfig"
    using that by (simp add: validate_vault_entry_def get_prop_def)
  have deposit: "validate_vault_entry chainTokenConfig = Inl AutoDepositNotBoolean"
    if "\<not> nullish chainTokenConfig \<and> typeof (get chainTokenConfig ''autoDeposit'') \<noteq> T_boolean"
    using that by (simp add: validate_vault_entry_def get_prop_def)
  have withdraw: "validate_vault_entry chainTokenConfig = Inl AutoWithdrawNotBoolean"
    if "typeof (get chainTokenConfig ''autoDeposit'') = T_boolean \<and>
        (get chainTokenConfig ''autoDeposit'' = JBool True \<longrightarrow>
           typeof (get chainTokenConfig ''depositThresholdAmount'') = T_number \<and>
           typeof (get chainTokenConfig ''depositAmount'') = T_number) \<and>
        typeof (get chainTokenConfig ''autoWithdraw'') \<noteq> T_boolean"
    using that there
    by (cases "get chainTokenConfig ''autoDeposit''")
       (auto simp: validate_vault_entry_def get_prop_def)
  have strategy: "validate_vault_entry chainTokenConfig = Inl StrategyInvalid"
    if "typeof (get chainTokenConfig ''autoDeposit'') = T_boolean \<and>
        (get chainTokenConfig ''autoDeposit'' = JBool True \<longrightarrow>
           typeof (get chainTokenConfig ''depositThresholdAmount'') = T_number \<and>
           typeof (get chainTokenConfig ''depositAmount'') = T_number) \<and>
        typeof (get chainTokenConfig ''autoWithdraw'') = T_boolean \<and>
        get chainTokenConfig ''strategy'' \<notin> set [JStr ''yearn'', JStr ''aave'']"
    using that there
    by (cases "get chainTokenConfig ''autoDeposit''")
       (auto simp: validate_vault_entry_def get_prop_def)
  from need fails validate_vault_entry_eq_Inr [of chainTokenConfig] amount threshold null
    deposit withdraw strategy
  show ?thesis
    by blast
qed

theorem vault_entries_checked_witness:
  "validateConfigValues example_env hop_constants resolved_config = Inr () \<and>
   vault_entry_ok (get (get (get resolved_config ''vault'') ''USDC'') ''optimism'') \<and>
   \<not> vault_entry_ok (get (get (get deposit_amount_missing_config ''vault'') ''USDC'') ''optimism'') \<and>
   validate_vault_entry (get (get (get deposit_amount_missing_config ''vault'') ''USDC'') ''optimism'')
     = Inl DepositAmountNotNumber \<and>
   validateConfigValues example_env hop_constants deposit_amount_missing_config
     = Inl DepositAmountNotNumber \<and>
   validate_vault_entry (get (get (get both_amounts_missing_config ''vault'') ''USDC'') ''optimism'')
     = Inl DepositThresholdAmountNotNumber \<and>
   validate_vault_entry JNull = Inl TypeError \<and>
   validate_vault_entry (JObj [(''autoDeposit'', JStr ''yes'')]) = Inl AutoDepositNotBoolean \<and>
   validate_vault_entry (JObj [(''autoDeposit'', JBool False)]) = Inl AutoWithdrawNotBoolean \<and>
   validate_vault_entry (JObj [(''autoDeposit'', JBool False), (''autoWithdraw'', JBool True),
                               (''strategy'', JStr ''compound'')]) = Inl StrategyInvalid"
proof -
  have valid: "validateConfigValues example_env hop_constants resolved_config = Inr ()"
    by (simp add: resolved_config_def values_defs)
  have keys: "''USDC'' \<in> set (own_keys (get resolved_config ''vault''))"
    "''optimism'' \<in> set (own_keys (get (get resolved_config ''vault'') ''USDC''))"
    by (simp_all add: resolved_config_def)
  from vault_entries_checked [where config = resolved_config and E = example_env
      and K = hop_constants] valid keys
  have ok: "vault_entry_ok (get (get (get resolved_config ''vault'') ''USDC'') ''optimism'')"
    by blast
  let ?entry = "get (get (get deposit_amount_missing_config ''vault'') ''USDC'') ''optimism''"
  have entry: "get ?entry ''autoDeposit'' = JBool True \<and>
               typeof (get ?entry ''depositThresholdAmount'') = T_number \<and>
               typeof (get ?entry ''depositAmount'') \<noteq> T_number"
    by (simp add: deposit_amount_missing_config_def)
  from vault_entries_checked [where chainTokenConfig = ?entry] entry
  have named: "validate_vault_entry ?entry = Inl DepositAmountNotNumber"
    by blast
  have not_ok: "\<not> vault_entry_ok ?entry"
    by (simp add: deposit_amount_missing_config_def vault_entry_ok_def)
  have pass: "validateConfigValues example_env hop_constants deposit_amount_missing_config
                = Inl DepositAmountNotNumber"
    by (simp add: deposit_amount_missing_config_def values_defs)
  let ?both = "get (get (get both_amounts_missing_config ''vault'') ''USDC'') ''optimism''"
  have both: "get ?both ''autoDeposit'' = JBool True \<and>
              typeof (get ?both ''depositThresholdAmount'') \<noteq> T_number"
    by (simp add: both_amounts_missing_config_def)
  from vault_entries_checked [where chainTokenConfig = ?both] both
  have first: "validate_vault_entry ?both = Inl DepositThresholdAmountNotNumber"
    by blast
  from vault_entries_checked [where chainTokenConfig = JNull]
  have null: "validate_vault_entry JNull = Inl TypeError"
    by simp
  let ?text = "JObj [(''autoDeposit'', JStr ''yes'')]"
  have "\<not> nullish ?text \<and> typeof (get ?text ''autoDeposit'') \<noteq> T_boolean"
    by simp
  with vault_entries_checked [where chainTokenConfig = ?text]
  have deposit: "validate_vault_entry ?text = Inl AutoDepositNotBoolean"
    by blast
  let ?off = "JObj [(''autoDeposit'', JBool False)]"
  have "typeof (get ?off ''autoDeposit'') = T_boolean \<and>
        (get ?off ''autoDeposit'' = JBool True \<longrightarrow>
           typeof (get ?off ''depositThresholdAmount'') = T_number \<and>
           typeof (get ?off ''depositAmount'') = T_number) \<and>
        typeof (get ?off ''autoWithdraw'') \<noteq> T_boolean"
    by simp
  with vault_entries_checked [where chainTokenConfig = ?off]
  have withdraw: "validate_vault_entry ?off = Inl AutoWithdrawNotBoolean"
    by blast
  let ?other = "JObj [(''autoDeposit'', JBool False), (''autoWithdraw'', JBool True),
                      (''strategy'', JStr ''compound'')]"
  have "typeof (get ?other ''autoDeposit'') = T_boolean \<and>
        (get ?other ''autoDeposit'' = JBool True \<longrightarrow>
           typeof (get ?other ''depositThresholdAmount'') = T_number \<and>
           typeof (get ?other ''depositAmount'') = T_number) \<and>
        typeof (get ?other ''autoWithdraw'') = T_boolean \<and>
        get ?other ''strategy'' \<notin> set [JStr ''yearn'', JStr ''aave'']"
    by simp
  with vault_entries_checked [where chainTokenConfig = ?other]
  have strategy: "validate_vault_entry ?other = Inl StrategyInvalid"
    by blast
  from valid ok not_ok named pass first null deposit withdraw strategy show ?thesis
    by blast
qed

text \<open>
  The entry of C7 with \<^verbatim>\<open>autoDeposit = true\<close> and \<^verbatim>\<open>depositAmount\<close> missing, where
  \<^verbatim>\<open>depositThresholdAmount\<close> is missing too: the pass fails with the error of line 387,
  which names \<^verbatim>\<open>depositThresholdAmount\<close> and not \<^verbatim>\<open>depositAmount\<close>.
\<close>

theorem deposit_threshold_checked_first:
  "get (get (get (get both_amounts_missing_config ''vault'') ''USDC'') ''optimism'') ''autoDeposit''
     = JBool True \<and>
   get (get (get (get both_amounts_missing_config ''vault'') ''USDC'') ''optimism'') ''depositAmount''
     = JUndef \<and>
   validateConfigValues example_env hop_constants both_amounts_missing_config
     = Inl DepositThresholdAmountNotNumber \<and>
   validateConfigValues example_env hop_constants both_amounts_missing_config
     \<noteq> Inl DepositAmountNotNumber"
  by (simp add: both_amounts_missing_config_def values_defs)

end
